theory Spec2Isabelle
  imports Complex_Main
begin

section \<open>Python values, dictionaries and strings\<close>

text \<open>
  Requests and responses of the daemon are Python dictionaries read from and written as
  JSON. A dictionary is an association list in insertion order; \<open>dict_set\<close> is the
  assignment \<^verbatim>\<open>d[k] = v\<close> (overwrite in place, or append), \<open>dict_get\<close> is
  \<^verbatim>\<open>d.get(k)\<close> with \<open>None\<close> for a missing key.
  Strings are lists of characters; the model of the string functions is exact on ASCII
  text.
\<close>

datatype pyval =
    PNone
  | PBool bool
  | PInt int
  | PFloat real
  | PStr string
  | PList "pyval list"
  | PDict "(string \<times> pyval) list"

type_synonym dict = "(string \<times> pyval) list"

definition dict_get :: "dict \<Rightarrow> string \<Rightarrow> pyval option" where
  "dict_get d k = map_of d k"

fun dict_set :: "string \<Rightarrow> pyval \<Rightarrow> dict \<Rightarrow> dict" where
  "dict_set k v [] = [(k, v)]"
| "dict_set k v ((k', v') # d) = (if k' = k then (k, v) # d else (k', v') # dict_set k v d)"

text \<open>\<^verbatim>\<open>d.get(k, default)\<close>\<close>

definition dict_get_default :: "dict \<Rightarrow> string \<Rightarrow> pyval \<Rightarrow> pyval" where
  "dict_get_default d k dflt = (case dict_get d k of None \<Rightarrow> dflt | Some v \<Rightarrow> v)"

text \<open>Truth value of a Python object, as \<^verbatim>\<open>not x\<close> and \<^verbatim>\<open>if x\<close> read it.\<close>

fun truthy :: "pyval \<Rightarrow> bool" where
  "truthy PNone = False"
| "truthy (PBool b) = b"
| "truthy (PInt i) = (i \<noteq> 0)"
| "truthy (PFloat r) = (r \<noteq> 0)"
| "truthy (PStr s) = (s \<noteq> [])"
| "truthy (PList l) = (l \<noteq> [])"
| "truthy (PDict d) = (d \<noteq> [])"

definition code_of :: "char \<Rightarrow> nat" where
  "code_of c = of_char c"

definition is_space :: "char \<Rightarrow> bool" where
  "is_space c = (let n = code_of c in (9 \<le> n \<and> n \<le> 13) \<or> (28 \<le> n \<and> n \<le> 32))"

definition is_digit :: "char \<Rightarrow> bool" where
  "is_digit c = (let n = code_of c in 48 \<le> n \<and> n \<le> 57)"

definition is_alpha :: "char \<Rightarrow> bool" where
  "is_alpha c = (let n = code_of c in (65 \<le> n \<and> n \<le> 90) \<or> (97 \<le> n \<and> n \<le> 122))"

definition is_hex_digit :: "char \<Rightarrow> bool" where
  "is_hex_digit c =
     (let n = code_of c in (48 \<le> n \<and> n \<le> 57) \<or> (65 \<le> n \<and> n \<le> 70) \<or> (97 \<le> n \<and> n \<le> 102))"

definition lower_char :: "char \<Rightarrow> char" where
  "lower_char c =
     (let n = code_of c in
      if 65 \<le> n \<and> n \<le> 90 then ''abcdefghijklmnopqrstuvwxyz'' ! (n - 65) else c)"

text \<open>\<^verbatim>\<open>s.lower()\<close>, \<^verbatim>\<open>s.strip()\<close>, \<^verbatim>\<open>s.endswith(t)\<close>\<close>

definition py_lower :: "string \<Rightarrow> string" where
  "py_lower s = map lower_char s"

definition py_strip :: "string \<Rightarrow> string" where
  "py_strip s = rev (dropWhile is_space (rev (dropWhile is_space s)))"

definition py_endswith :: "string \<Rightarrow> string \<Rightarrow> bool" where
  "py_endswith s t = (length t \<le> length s \<and> drop (length s - length t) s = t)"

text \<open>\<^verbatim>\<open>s.split(c)\<close> for a one-character separator: never the empty list.\<close>

fun split_on :: "char \<Rightarrow> string \<Rightarrow> string list" where
  "split_on c [] = [[]]"
| "split_on c (x # xs) =
     (if x = c then [] # split_on c xs
      else (case split_on c xs of [] \<Rightarrow> [[x]] | p # ps \<Rightarrow> (x # p) # ps))"

text \<open>
  \<^verbatim>\<open>s.partition(c)\<close> gives the text before the first \<open>c\<close>, whether \<open>c\<close> occurs, and
  the text after it; \<^verbatim>\<open>s.rpartition(c)[2]\<close> is the text after the last \<open>c\<close> (all of
  \<open>s\<close> when \<open>c\<close> does not occur).
\<close>

definition before_first :: "char \<Rightarrow> string \<Rightarrow> string" where
  "before_first c s = takeWhile (\<lambda>x. x \<noteq> c) s"

definition after_first :: "char \<Rightarrow> string \<Rightarrow> string" where
  "after_first c s = drop 1 (dropWhile (\<lambda>x. x \<noteq> c) s)"

definition after_last :: "char \<Rightarrow> string \<Rightarrow> string" where
  "after_last c s = rev (takeWhile (\<lambda>x. x \<noteq> c) (rev s))"

text \<open>\<^verbatim>\<open>int(s, 10)\<close> and \<^verbatim>\<open>int(s, 16)\<close> on strings of digits.\<close>

definition dec_value :: "string \<Rightarrow> nat" where
  "dec_value s = foldl (\<lambda>a c. 10 * a + (code_of c - 48)) 0 s"

definition hex_digit_value :: "char \<Rightarrow> nat" where
  "hex_digit_value c =
     (let n = code_of c in if n \<le> 57 then n - 48 else if n \<le> 70 then n - 55 else n - 87)"

definition hex_value :: "string \<Rightarrow> nat" where
  "hex_value s = foldl (\<lambda>a c. 16 * a + hex_digit_value c) 0 s"

text \<open>\<^verbatim>\<open>str(n)\<close> of an integer and \<^verbatim>\<open>'%x' % n\<close>.\<close>

definition digit_char :: "nat \<Rightarrow> char" where
  "digit_char d = ''0123456789abcdef'' ! d"

fun str_nat :: "nat \<Rightarrow> string" where
  "str_nat n = (if n < 10 then [digit_char n] else str_nat (n div 10) @ [digit_char (n mod 10)])"

declare str_nat.simps [simp del]

definition str_int :: "int \<Rightarrow> string" where
  "str_int i = (if i < 0 then CHR ''-'' # str_nat (nat (- i)) else str_nat (nat i))"

fun hex_str :: "nat \<Rightarrow> string" where
  "hex_str n = (if n < 16 then [digit_char n] else hex_str (n div 16) @ [digit_char (n mod 16)])"

declare hex_str.simps [simp del]

text \<open>\<^verbatim>\<open>sep.join(parts)\<close> and \<^verbatim>\<open>repr(s)\<close> of a string without quotes or escapes in it.\<close>

fun join :: "string \<Rightarrow> string list \<Rightarrow> string" where
  "join sep [] = []"
| "join sep [p] = p"
| "join sep (p # q # ps) = p @ sep @ join sep (q # ps)"

definition quoted :: "string \<Rightarrow> string" where
  "quoted s = CHR 0x27 # s @ [CHR 0x27]"

section \<open>The standard library's IP addresses\<close>

text \<open>
  The validator classifies addresses with Python's \<^verbatim>\<open>ipaddress\<close> module, which is
  not part of the repository. The definitions of this section follow that module as
  CPython 3.12 has it: an address object holds its value as an integer (and an IPv6
  address its scope id), a network is a base address and a prefix length, and
  \<^verbatim>\<open>ip_address(s)\<close> tries IPv4 first and IPv6 second.
\<close>

datatype ip_obj = IPv4Address nat | IPv6Address nat "string option"

definition parse_octet :: "string \<Rightarrow> nat option" where
  "parse_octet s =
     (if s = [] then None
      else if \<not> list_all is_digit s then None
      else if length s > 3 then None
      else if s \<noteq> ''0'' \<and> hd s = CHR ''0'' then None
      else if dec_value s > 255 then None
      else Some (dec_value s))"

definition all_some :: "'a option list \<Rightarrow> 'a list option" where
  "all_some xs = (if list_all (\<lambda>x. x \<noteq> None) xs then Some (map the xs) else None)"

definition ipv4_from_string :: "string \<Rightarrow> nat option" where
  "ipv4_from_string s =
     (if s = [] then None
      else let octets = split_on CHR ''.'' s in
        if length octets \<noteq> 4 then None
        else (case all_some (map parse_octet octets) of
                None \<Rightarrow> None
              | Some bs \<Rightarrow> Some (foldl (\<lambda>a b. a * 256 + b) 0 bs)))"

definition new_IPv4Address :: "string \<Rightarrow> nat option" where
  "new_IPv4Address s = (if CHR ''/'' \<in> set s then None else ipv4_from_string s)"

definition parse_hextet :: "string \<Rightarrow> nat option" where
  "parse_hextet s =
     (if \<not> list_all is_hex_digit s then None
      else if length s > 4 then None
      else if s = [] then None
      else Some (hex_value s))"

definition hextets_value :: "nat list \<Rightarrow> nat" where
  "hextets_value hs = foldl (\<lambda>a h. a * 65536 + h) 0 hs"

definition ipv6_from_string :: "string \<Rightarrow> nat option" where
  "ipv6_from_string s =
     (if s = [] then None
      else let parts0 = split_on CHR '':'' s in
        if length parts0 < 3 then None
        else
          (case (if CHR ''.'' \<in> set (last parts0)
                 then (case new_IPv4Address (last parts0) of
                         None \<Rightarrow> None
                       | Some v \<Rightarrow>
                           Some (butlast parts0 @ [hex_str (v div 65536 mod 65536), hex_str (v mod 65536)]))
                 else Some parts0) of
             None \<Rightarrow> None
           | Some parts \<Rightarrow>
               if length parts > 9 then None
               else
                 (case filter (\<lambda>i. parts ! i = []) [1 ..< length parts - 1] of
                    [] \<Rightarrow>
                      if length parts \<noteq> 8 then None
                      else if hd parts = [] then None
                      else if last parts = [] then None
                      else map_option hextets_value (all_some (map parse_hextet parts))
                  | [skip_index] \<Rightarrow>
                      let parts_hi0 = skip_index;
                          parts_lo0 = length parts - skip_index - 1
                      in
                        if hd parts = [] \<and> parts_hi0 - 1 \<noteq> 0 then None
                        else if last parts = [] \<and> parts_lo0 - 1 \<noteq> 0 then None
                        else
                          let parts_hi = (if hd parts = [] then parts_hi0 - 1 else parts_hi0);
                              parts_lo = (if last parts = [] then parts_lo0 - 1 else parts_lo0)
                          in
                            if 8 \<le> parts_hi + parts_lo then None
                            else
                              (case (all_some (map parse_hextet (take parts_hi parts)),
                                     all_some (map parse_hextet (drop (length parts - parts_lo) parts))) of
                                 (Some his, Some los) \<Rightarrow>
                                   Some (hextets_value
                                     (his @ replicate (8 - (parts_hi + parts_lo)) 0 @ los))
                               | _ \<Rightarrow> None)
                  | _ \<Rightarrow> None)))"

definition new_IPv6Address :: "string \<Rightarrow> (nat \<times> string option) option" where
  "new_IPv6Address s =
     (if CHR ''/'' \<in> set s then None
      else if CHR ''%'' \<notin> set s then map_option (\<lambda>n. (n, None)) (ipv6_from_string s)
      else let scope_id = after_first CHR ''%'' s in
        if scope_id = [] \<or> CHR ''%'' \<in> set scope_id then None
        else map_option (\<lambda>n. (n, Some scope_id)) (ipv6_from_string (before_first CHR ''%'' s)))"

text \<open>\<^verbatim>\<open>ipaddress.ip_address(s)\<close>: the object, or the message of the \<open>ValueError\<close>.\<close>

definition ip_address :: "string \<Rightarrow> string + ip_obj" where
  "ip_address s =
     (case new_IPv4Address s of
        Some n \<Rightarrow> Inr (IPv4Address n)
      | None \<Rightarrow>
          (case new_IPv6Address s of
             Some (n, scope_id) \<Rightarrow> Inr (IPv6Address n scope_id)
           | None \<Rightarrow> Inl (quoted s @ '' does not appear to be an IPv4 or IPv6 address'')))"

text \<open>Networks: membership compares the leading \<open>plen\<close> bits.\<close>

definition ipv4 :: "nat \<Rightarrow> nat \<Rightarrow> nat \<Rightarrow> nat \<Rightarrow> nat" where
  "ipv4 a b c d = ((a * 256 + b) * 256 + c) * 256 + d"

definition in_network :: "nat \<Rightarrow> nat \<Rightarrow> nat \<times> nat \<Rightarrow> bool" where
  "in_network bits n net = (n div 2 ^ (bits - snd net) = fst net div 2 ^ (bits - snd net))"

definition ipv4_private_networks :: "(nat \<times> nat) list" where
  "ipv4_private_networks =
     [(ipv4 0 0 0 0, 8), (ipv4 10 0 0 0, 8), (ipv4 127 0 0 0, 8), (ipv4 169 254 0 0, 16),
      (ipv4 172 16 0 0, 12), (ipv4 192 0 0 0, 24), (ipv4 192 0 0 170, 31), (ipv4 192 0 2 0, 24),
      (ipv4 192 168 0 0, 16), (ipv4 198 18 0 0, 15), (ipv4 198 51 100 0, 24),
      (ipv4 203 0 113 0, 24), (ipv4 240 0 0 0, 4), (ipv4 255 255 255 255, 32)]"

definition ipv4_private_networks_exceptions :: "(nat \<times> nat) list" where
  "ipv4_private_networks_exceptions = [(ipv4 192 0 0 9, 32), (ipv4 192 0 0 10, 32)]"

definition ipv6_private_networks :: "(nat \<times> nat) list" where
  "ipv6_private_networks =
     [(hextets_value [0, 0, 0, 0, 0, 0, 0, 1], 128),
      (hextets_value [0, 0, 0, 0, 0, 0, 0, 0], 128),
      (hextets_value [0, 0, 0, 0, 0, 0xffff, 0, 0], 96),
      (hextets_value [0x64, 0xff9b, 1, 0, 0, 0, 0, 0], 48),
      (hextets_value [0x100, 0, 0, 0, 0, 0, 0, 0], 64),
      (hextets_value [0x2001, 0, 0, 0, 0, 0, 0, 0], 23),
      (hextets_value [0x2001, 0xdb8, 0, 0, 0, 0, 0, 0], 32),
      (hextets_value [0x2002, 0, 0, 0, 0, 0, 0, 0], 16),
      (hextets_value [0xfc00, 0, 0, 0, 0, 0, 0, 0], 7),
      (hextets_value [0xfe80, 0, 0, 0, 0, 0, 0, 0], 10)]"

definition ipv6_private_networks_exceptions :: "(nat \<times> nat) list" where
  "ipv6_private_networks_exceptions =
     [(hextets_value [0x2001, 1, 0, 0, 0, 0, 0, 1], 128),
      (hextets_value [0x2001, 1, 0, 0, 0, 0, 0, 2], 128),
      (hextets_value [0x2001, 3, 0, 0, 0, 0, 0, 0], 32),
      (hextets_value [0x2001, 4, 0x112, 0, 0, 0, 0, 0], 48),
      (hextets_value [0x2001, 0x20, 0, 0, 0, 0, 0, 0], 28),
      (hextets_value [0x2001, 0x30, 0, 0, 0, 0, 0, 0], 28)]"

text \<open>
  The properties of an address object. For an IPv6 object \<open>is_loopback\<close> is \<open>::1\<close> alone
  and \<open>is_unspecified\<close> is \<open>::\<close> alone; only \<open>is_private\<close> looks at the IPv4 address
  embedded in an IPv4-mapped address.
\<close>

fun ipv4_mapped :: "ip_obj \<Rightarrow> nat option" where
  "ipv4_mapped (IPv4Address n) = None"
| "ipv4_mapped (IPv6Address n scope_id) =
     (if n div 2 ^ 32 \<noteq> 0xFFFF then None else Some (n mod 2 ^ 32))"

fun is_loopback :: "ip_obj \<Rightarrow> bool" where
  "is_loopback (IPv4Address n) = in_network 32 n (ipv4 127 0 0 0, 8)"
| "is_loopback (IPv6Address n scope_id) = (n = 1)"

fun is_link_local :: "ip_obj \<Rightarrow> bool" where
  "is_link_local (IPv4Address n) = in_network 32 n (ipv4 169 254 0 0, 16)"
| "is_link_local (IPv6Address n scope_id) =
     in_network 128 n (hextets_value [0xfe80, 0, 0, 0, 0, 0, 0, 0], 10)"

definition ipv4_is_private :: "nat \<Rightarrow> bool" where
  "ipv4_is_private n =
     (list_ex (in_network 32 n) ipv4_private_networks \<and>
      list_all (\<lambda>net. \<not> in_network 32 n net) ipv4_private_networks_exceptions)"

fun is_private :: "ip_obj \<Rightarrow> bool" where
  "is_private (IPv4Address n) = ipv4_is_private n"
| "is_private (IPv6Address n scope_id) =
     (case ipv4_mapped (IPv6Address n scope_id) of
        Some m \<Rightarrow> ipv4_is_private m
      | None \<Rightarrow>
          list_ex (in_network 128 n) ipv6_private_networks \<and>
          list_all (\<lambda>net. \<not> in_network 128 n net) ipv6_private_networks_exceptions)"

fun is_multicast :: "ip_obj \<Rightarrow> bool" where
  "is_multicast (IPv4Address n) = in_network 32 n (ipv4 224 0 0 0, 4)"
| "is_multicast (IPv6Address n scope_id) =
     in_network 128 n (hextets_value [0xff00, 0, 0, 0, 0, 0, 0, 0], 8)"

fun is_unspecified :: "ip_obj \<Rightarrow> bool" where
  "is_unspecified (IPv4Address n) = (n = 0)"
| "is_unspecified (IPv6Address n scope_id) = (n = 0)"

text \<open>\<^verbatim>\<open>str(ip)\<close>: dotted decimal, or hextets with the first longest run of zeros compressed.\<close>

definition str_ipv4 :: "nat \<Rightarrow> string" where
  "str_ipv4 n =
     join ''.'' (map str_nat [n div 16777216 mod 256, n div 65536 mod 256, n div 256 mod 256, n mod 256])"

definition hextets_of :: "nat \<Rightarrow> nat list" where
  "hextets_of n = map (\<lambda>k. n div 65536 ^ k mod 65536) [7, 6, 5, 4, 3, 2, 1, 0]"

text \<open>
  The loop of \<^verbatim>\<open>_compress_hextets\<close>: the state is the best run so far (start, length)
  and the current run (start, length); \<open>None\<close> stands for the start \<open>-1\<close>.
\<close>

fun zero_run_step ::
  "nat option \<times> nat \<times> nat option \<times> nat \<Rightarrow> nat \<times> nat \<Rightarrow> nat option \<times> nat \<times> nat option \<times> nat" where
  "zero_run_step (best_start, best_len, cur_start, cur_len) (index, hextet) =
     (if hextet = 0 then
        let cur_len' = cur_len + 1;
            cur_start' = (if cur_start = None then Some index else cur_start)
        in if cur_len' > best_len then (cur_start', cur_len', cur_start', cur_len')
           else (best_start, best_len, cur_start', cur_len')
      else (best_start, best_len, None, 0))"

definition compress_hextets :: "nat list \<Rightarrow> string list" where
  "compress_hextets hs =
     (let strs = map hex_str hs in
      case foldl zero_run_step (None, 0, None, 0) (List.enumerate 0 hs) of
        (Some best_start, best_len, _, _) \<Rightarrow>
          if best_len > 1 then
            let best_end = best_start + best_len;
                strs1 = (if best_end = length strs then strs @ [[]] else strs);
                strs2 = take best_start strs1 @ [[]] @ drop best_end strs1
            in if best_start = 0 then [] # strs2 else strs2
          else strs
      | (None, _, _, _) \<Rightarrow> strs)"

fun str_ip :: "ip_obj \<Rightarrow> string" where
  "str_ip (IPv4Address n) = str_ipv4 n"
| "str_ip (IPv6Address n scope_id) =
     (let ip_str = join '':'' (compress_hextets (hextets_of n)) in
      case scope_id of
        None \<Rightarrow> ip_str
      | Some z \<Rightarrow> if z \<noteq> [] then ip_str @ ''%'' @ z else ip_str)"

section \<open>The standard library's URL parser\<close>

text \<open>
  \<^verbatim>\<open>urllib.parse.urlparse\<close>, as CPython 3.12 has it, for the components the validator
  reads: the scheme and the network location, and the \<open>hostname\<close> and \<open>port\<close>
  properties computed from the network location. Parsing raises \<open>ValueError\<close> for
  unbalanced or misplaced brackets and for a bracketed host that is no IPv6 address; the
  \<open>port\<close> property raises \<open>ValueError\<close> for a port that is no number or is above
  65535. A \<open>ValueError\<close> is the \<open>Inl\<close> of its message.
\<close>

record parsed_url =
  scheme :: string
  netloc :: string

definition scheme_char :: "char \<Rightarrow> bool" where
  "scheme_char c = (is_alpha c \<or> is_digit c \<or> c \<in> set ''+-.'')"

definition check_bracketed_host :: "string \<Rightarrow> string option" where
  "check_bracketed_host h =
     (if take 1 h = ''v'' then
        (let hx = takeWhile is_hex_digit (drop 1 h);
             rest = dropWhile is_hex_digit (drop 1 h)
         in if hx \<noteq> [] \<and> take 1 rest = ''.'' \<and> 2 \<le> length rest then None
            else Some ''IPvFuture address is invalid'')
      else
        (case ip_address h of
           Inl msg \<Rightarrow> Some msg
         | Inr (IPv4Address n) \<Rightarrow> Some ''An IPv4 address cannot be in brackets''
         | Inr (IPv6Address n scope_id) \<Rightarrow> None))"

definition check_bracketed_netloc :: "string \<Rightarrow> string option" where
  "check_bracketed_netloc nl =
     (let hostname_and_port = after_last CHR ''@'' nl in
      if CHR ''['' \<in> set hostname_and_port then
        (let before_bracket = before_first CHR ''['' hostname_and_port;
             bracketed = after_first CHR ''['' hostname_and_port;
             hostname = before_first CHR '']'' bracketed;
             port = after_first CHR '']'' bracketed
         in if before_bracket \<noteq> [] then Some ''Invalid IPv6 URL''
            else if port \<noteq> [] \<and> take 1 port \<noteq> '':'' then Some ''Invalid IPv6 URL''
            else check_bracketed_host hostname)
      else check_bracketed_host (before_first CHR '':'' hostname_and_port))"

definition urlparse :: "string \<Rightarrow> string + parsed_url" where
  "urlparse url0 =
     (let url1 = dropWhile (\<lambda>c. code_of c \<le> 32) url0;
          url = filter (\<lambda>c. c \<notin> set [CHR 0x09, CHR 0x0D, CHR 0x0A]) url1;
          pre = before_first CHR '':'' url;
          has_scheme = (CHR '':'' \<in> set url \<and> pre \<noteq> [] \<and> is_alpha (hd url) \<and> list_all scheme_char pre);
          sch = (if has_scheme then py_lower pre else []);
          rest = (if has_scheme then drop (length pre + 1) url else url)
      in
        if take 2 rest = ''//'' then
          (let nl = takeWhile (\<lambda>c. c \<notin> set ''/?#'') (drop 2 rest) in
           if (CHR ''['' \<in> set nl \<and> CHR '']'' \<notin> set nl) \<or> (CHR '']'' \<in> set nl \<and> CHR ''['' \<notin> set nl)
           then Inl ''Invalid IPv6 URL''
           else if CHR ''['' \<in> set nl \<and> CHR '']'' \<in> set nl then
             (case check_bracketed_netloc nl of
                Some msg \<Rightarrow> Inl msg
              | None \<Rightarrow> Inr \<lparr>scheme = sch, netloc = nl\<rparr>)
           else Inr \<lparr>scheme = sch, netloc = nl\<rparr>)
        else Inr \<lparr>scheme = sch, netloc = []\<rparr>)"

text \<open>The pair \<^verbatim>\<open>_hostinfo\<close>: the host and the port text of a network location.\<close>

definition hostinfo :: "string \<Rightarrow> string \<times> string" where
  "hostinfo nl =
     (let hi = after_last CHR ''@'' nl in
      if CHR ''['' \<in> set hi then
        (let bracketed = after_first CHR ''['' hi in
         (before_first CHR '']'' bracketed, after_first CHR '':'' (after_first CHR '']'' bracketed)))
      else (before_first CHR '':'' hi, after_first CHR '':'' hi))"

definition hostname :: "parsed_url \<Rightarrow> string option" where
  "hostname p =
     (let h = fst (hostinfo (netloc p)) in
      if h = [] then None
      else Some (py_lower (before_first CHR ''%'' h) @ dropWhile (\<lambda>x. x \<noteq> CHR ''%'') h))"

definition port :: "parsed_url \<Rightarrow> string + int option" where
  "port p =
     (let t = snd (hostinfo (netloc p)) in
      if t = [] then Inr None
      else if \<not> list_all is_digit t then
        Inl (''Port could not be cast to integer value as '' @ quoted t)
      else if 65535 < dec_value t then Inl ''Port out of range 0-65535''
      else Inr (Some (int (dec_value t))))"

section \<open>Exceptions\<close>

text \<open>
  \<open>ssrf_error\<close> has one constructor for each place where the validator raises
  \<open>SSRFError\<close>, carrying the values its message interpolates; \<open>ssrf_str\<close> is the message.
  In the spec's taxonomy \<open>EmptyURL\<close>, \<open>MalformedURL\<close>, \<open>MissingHost\<close> and
  \<open>MissingHostname\<close> are the kind Malformed, and \<open>DangerousPort\<close> and \<open>SystemPort\<close> the
  kind PortNotAllowed. The set \<open>ALLOWED_SCHEMES\<close> is printed with http first (Python
  leaves the order of a set open).
\<close>

datatype ssrf_error =
    EmptyURL
  | MalformedURL string
  | MissingHost
  | MissingHostname
  | SchemeNotAllowed string
  | DangerousPort int
  | SystemPort int
  | NotInAllowlist string
  | InvalidIP string
  | Loopback ip_obj
  | LinkLocal ip_obj
  | Private ip_obj
  | Multicast ip_obj
  | Unspecified ip_obj
  | Broadcast ip_obj
  | ResolvesToUnsafe string ssrf_error
  | ResolutionFailed string string
  | HostnameError string string

fun ssrf_str :: "ssrf_error \<Rightarrow> string" where
  "ssrf_str EmptyURL = ''URL cannot be empty''"
| "ssrf_str (MalformedURL msg) = ''Malformed URL: '' @ msg"
| "ssrf_str MissingHost = ''Malformed URL: missing host''"
| "ssrf_str MissingHostname = ''Malformed URL: missing hostname''"
| "ssrf_str (SchemeNotAllowed s) =
     ''URL scheme '' @ quoted s @ '' not allowed. Only ['http', 'https'] are permitted''"
| "ssrf_str (DangerousPort p) =
     ''Port '' @ str_int p @ '' not allowed - potentially dangerous service''"
| "ssrf_str (SystemPort p) = ''Port '' @ str_int p @ '' not allowed - system port range''"
| "ssrf_str (NotInAllowlist h) = ''Domain '' @ quoted h @ '' not in allowlist''"
| "ssrf_str (InvalidIP msg) = ''Invalid IP address: '' @ msg"
| "ssrf_str (Loopback ip) = ''Localhost/loopback address not allowed: '' @ str_ip ip"
| "ssrf_str (LinkLocal ip) = ''Link-local address not allowed: '' @ str_ip ip"
| "ssrf_str (Private ip) = ''Private IP address not allowed: '' @ str_ip ip"
| "ssrf_str (Multicast ip) = ''Multicast address not allowed: '' @ str_ip ip"
| "ssrf_str (Unspecified ip) = ''Unspecified address not allowed: '' @ str_ip ip"
| "ssrf_str (Broadcast ip) = ''Broadcast address not allowed: '' @ str_ip ip"
| "ssrf_str (ResolvesToUnsafe h e) =
     ''Hostname '' @ quoted h @ '' resolves to private/dangerous IP: '' @ ssrf_str e"
| "ssrf_str (ResolutionFailed h msg) = ''Failed to resolve hostname '' @ quoted h @ '': '' @ msg"
| "ssrf_str (HostnameError h msg) = ''Error validating hostname '' @ quoted h @ '': '' @ msg"

text \<open>
  The exceptions of the program: the validator's own, the built-in ones the code raises
  or meets, \<open>socket.gaierror\<close>, and \<open>OtherError\<close> for an exception of a collaborator
  (the network, the engine) with its message.
\<close>

datatype exn =
    SSRFError ssrf_error
  | ValueError string
  | AttributeError string
  | OSError string
  | GaiError string
  | OtherError string

fun str_exn :: "exn \<Rightarrow> string" where
  "str_exn (SSRFError e) = ssrf_str e"
| "str_exn (ValueError msg) = msg"
| "str_exn (AttributeError msg) = msg"
| "str_exn (OSError msg) = msg"
| "str_exn (GaiError msg) = msg"
| "str_exn (OtherError msg) = msg"

section \<open>URLValidator\<close>

text \<open>
  \<^verbatim>\<open>src/scripts/url_validator.py\<close>. A method that returns \<open>None\<close> or raises is a function
  into \<open>exn + unit\<close>. The resolver \<^verbatim>\<open>socket.getaddrinfo\<close> is a parameter: it gives the
  addresses (\<^verbatim>\<open>sockaddr[0]\<close> of the IPv4 and IPv6 answers) of a host name, or raises.
\<close>

definition ALLOWED_SCHEMES :: "string list" where
  "ALLOWED_SCHEMES = [''http'', ''https'']"

definition DANGEROUS_PORTS :: "int list" where
  "DANGEROUS_PORTS = [22, 23, 25, 53, 110, 143, 993, 995, 1433, 3306, 5432, 6379, 11211, 27017]"

definition SAFE_PORTS :: "int list" where
  "SAFE_PORTS = [80, 443, 8080, 8443]"

record url_validator =
  allowed_domains :: "string list option"
  request_timeout :: int

definition new_URLValidator :: "string list option \<Rightarrow> int \<Rightarrow> url_validator" where
  "new_URLValidator domains timeout =
     \<lparr>allowed_domains =
        (case domains of
           None \<Rightarrow> None
         | Some ds \<Rightarrow> if ds \<noteq> [] then Some (remdups ds) else None),
      request_timeout = timeout\<rparr>"

definition validate_scheme :: "string \<Rightarrow> exn + unit" where
  "validate_scheme s =
     (if py_lower s \<notin> set ALLOWED_SCHEMES then Inl (SSRFError (SchemeNotAllowed s)) else Inr ())"

definition validate_port :: "int option \<Rightarrow> string \<Rightarrow> exn + unit" where
  "validate_port p s =
     (case p of
        None \<Rightarrow> Inr ()
      | Some n \<Rightarrow>
          if n \<in> set DANGEROUS_PORTS then Inl (SSRFError (DangerousPort n))
          else if n \<notin> set SAFE_PORTS \<and> n \<notin> {80, 443} then
            (if n < 1024 then Inl (SSRFError (SystemPort n)) else Inr ())
          else Inr ())"

definition validate_domain_allowlist :: "url_validator \<Rightarrow> string \<Rightarrow> exn + unit" where
  "validate_domain_allowlist v h =
     (case allowed_domains v of
        None \<Rightarrow> Inr ()
      | Some ds \<Rightarrow>
          if h \<in> set ds then Inr ()
          else if list_ex (\<lambda>d. py_endswith h (''.'' @ d)) ds then Inr ()
          else Inl (SSRFError (NotInAllowlist h)))"

definition is_ip_address :: "string \<Rightarrow> bool" where
  "is_ip_address h = (case ip_address h of Inl msg \<Rightarrow> False | Inr ip \<Rightarrow> True)"

lemma split_on_absent: "c \<notin> set s \<Longrightarrow> split_on c s = [s]"
  by (induction s) auto

lemma ipv6_from_string_colon: "ipv6_from_string s = Some n \<Longrightarrow> CHR '':'' \<in> set s"
proof (rule ccontr)
  assume some: "ipv6_from_string s = Some n" and absent: "CHR '':'' \<notin> set s"
  from absent have "split_on CHR '':'' s = [s]" by (rule split_on_absent)
  then have "ipv6_from_string s = None" by (simp add: ipv6_from_string_def)
  with some show False by simp
qed

lemma ip_address_IPv6_colon:
  assumes "ip_address s = Inr (IPv6Address n scope_id)"
  shows "CHR '':'' \<in> set s"
proof -
  from assms obtain r where r: "new_IPv6Address s = Some r"
    by (auto simp: ip_address_def split: option.splits)
  show ?thesis
  proof (cases "CHR ''%'' \<in> set s")
    case False
    with r obtain m where "ipv6_from_string s = Some m"
      by (auto simp: new_IPv6Address_def split: if_splits)
    then show ?thesis by (rule ipv6_from_string_colon)
  next
    case True
    with r obtain m where "ipv6_from_string (before_first CHR ''%'' s) = Some m"
      by (auto simp: new_IPv6Address_def Let_def split: if_splits)
    then have "CHR '':'' \<in> set (before_first CHR ''%'' s)" by (rule ipv6_from_string_colon)
    then show ?thesis
      by (auto simp: before_first_def dest: set_takeWhileD)
  qed
qed

lemma digit_char_is_digit:
  assumes "d < 10"
  shows "is_digit (digit_char d)"
proof -
  from assms have "d = 0 \<or> d = 1 \<or> d = 2 \<or> d = 3 \<or> d = 4 \<or> d = 5 \<or> d = 6 \<or> d = 7 \<or> d = 8 \<or> d = 9"
    by arith
  then show ?thesis
    by (auto simp: digit_char_def is_digit_def code_of_def)
qed

lemma str_nat_digits: "c \<in> set (str_nat n) \<Longrightarrow> is_digit c"
proof (induction n rule: str_nat.induct)
  case (1 n)
  show ?case
  proof (cases "n < 10")
    case True
    with "1.prems" have "c = digit_char n" by (simp add: str_nat.simps)
    with True show ?thesis by (simp add: digit_char_is_digit)
  next
    case False
    with "1.prems" have "c \<in> set (str_nat (n div 10)) \<or> c = digit_char (n mod 10)"
      by (subst (asm) str_nat.simps) auto
    then show ?thesis
    proof
      assume "c \<in> set (str_nat (n div 10))"
      with False "1.IH" show ?thesis by simp
    next
      assume "c = digit_char (n mod 10)"
      moreover have "n mod 10 < 10" by simp
      ultimately show ?thesis by (simp add: digit_char_is_digit)
    qed
  qed
qed

lemma str_ipv4_no_colon: "CHR '':'' \<notin> set (str_ipv4 n)"
proof
  assume "CHR '':'' \<in> set (str_ipv4 n)"
  then have "CHR '':'' = CHR ''.'' \<or> (\<exists>k. CHR '':'' \<in> set (str_nat k))"
    by (auto simp: str_ipv4_def)
  then obtain k where "CHR '':'' \<in> set (str_nat k)" by auto
  then have "is_digit CHR '':''" by (rule str_nat_digits)
  then show False by (simp add: is_digit_def code_of_def)
qed

text \<open>
  \<^verbatim>\<open>_validate_ip_address\<close>: the five properties of the address object are tested in the
  source's order, then the broadcast address for IPv4; for an IPv6 object that passed all
  of them and is IPv4-mapped, the method calls itself on the text of the embedded address.
\<close>

function validate_ip_address :: "string \<Rightarrow> exn + unit" where
  "validate_ip_address ip_str =
     (case ip_address ip_str of
        Inl msg \<Rightarrow> Inl (SSRFError (InvalidIP msg))
      | Inr ip \<Rightarrow>
          if is_loopback ip then Inl (SSRFError (Loopback ip))
          else if is_link_local ip then Inl (SSRFError (LinkLocal ip))
          else if is_private ip then Inl (SSRFError (Private ip))
          else if is_multicast ip then Inl (SSRFError (Multicast ip))
          else if is_unspecified ip then Inl (SSRFError (Unspecified ip))
          else
            (case ip of
               IPv4Address n \<Rightarrow>
                 if str_ip ip = ''255.255.255.255'' then Inl (SSRFError (Broadcast ip)) else Inr ()
             | IPv6Address n scope_id \<Rightarrow>
                 (case ipv4_mapped ip of
                    Some m \<Rightarrow> validate_ip_address (str_ip (IPv4Address m))
                  | None \<Rightarrow> Inr ())))"
  by pat_completeness auto
termination
proof (relation "measure (\<lambda>s. if CHR '':'' \<in> set s then 1 else 0)")
  show "wf (measure (\<lambda>s. if CHR '':'' \<in> set s then 1 else 0))" by simp
next
  fix ip_str ip n scope_id m
  assume "ip_address ip_str = Inr ip" and "ip = IPv6Address n scope_id"
  then have "CHR '':'' \<in> set ip_str" by (auto dest: ip_address_IPv6_colon)
  then show "(str_ip (IPv4Address m), ip_str) \<in> measure (\<lambda>s. if CHR '':'' \<in> set s then 1 else 0)"
    by (simp add: str_ipv4_no_colon)
qed

declare validate_ip_address.simps [simp del]

text \<open>
  \<^verbatim>\<open>_validate_hostname_resolution\<close>. The addresses are validated in the order of the
  resolver's answer, without repetitions. The \<open>SSRFError\<close> raised for an unsafe address is
  raised inside the \<open>try\<close> block, so the last handler (\<^verbatim>\<open>except Exception\<close>) catches it
  and raises the error that leaves the method.
\<close>

fun validate_resolved :: "string \<Rightarrow> string list \<Rightarrow> exn + unit" where
  "validate_resolved h [] = Inr ()"
| "validate_resolved h (ip # ips) =
     (case validate_ip_address ip of
        Inl (SSRFError e) \<Rightarrow> Inl (SSRFError (ResolvesToUnsafe h e))
      | Inl e \<Rightarrow> Inl e
      | Inr u \<Rightarrow> validate_resolved h ips)"

definition validate_hostname_resolution :: "(string \<Rightarrow> exn + string list) \<Rightarrow> string \<Rightarrow> exn + unit" where
  "validate_hostname_resolution getaddrinfo h =
     (case (case getaddrinfo h of Inl e \<Rightarrow> Inl e | Inr ips \<Rightarrow> validate_resolved h (remdups ips)) of
        Inl (GaiError msg) \<Rightarrow> Inl (SSRFError (ResolutionFailed h msg))
      | Inl e \<Rightarrow> Inl (SSRFError (HostnameError h (str_exn e)))
      | Inr u \<Rightarrow> Inr ())"

text \<open>
  \<^verbatim>\<open>validate_url\<close>. The scheme is checked first, then the network location; the
  \<open>hostname\<close> and \<open>port\<close> properties are read next, outside any \<open>try\<close>, so the
  \<open>ValueError\<close> of a bad port leaves the method as it is.
\<close>

definition validate_url :: "(string \<Rightarrow> exn + string list) \<Rightarrow> url_validator \<Rightarrow> string \<Rightarrow> exn + unit" where
  "validate_url getaddrinfo v url =
     (if url = [] \<or> py_strip url = [] then Inl (SSRFError EmptyURL)
      else
        (case urlparse url of
           Inl msg \<Rightarrow> Inl (SSRFError (MalformedURL msg))
         | Inr parsed \<Rightarrow>
             (case validate_scheme (scheme parsed) of
                Inl e \<Rightarrow> Inl e
              | Inr u \<Rightarrow>
                  if netloc parsed = [] then Inl (SSRFError MissingHost)
                  else
                    (case port parsed of
                       Inl msg \<Rightarrow> Inl (ValueError msg)
                     | Inr p \<Rightarrow>
                         (case hostname parsed of
                            None \<Rightarrow> Inl (SSRFError MissingHostname)
                          | Some h \<Rightarrow>
                              (case validate_port p (scheme parsed) of
                                 Inl e \<Rightarrow> Inl e
                               | Inr u \<Rightarrow>
                                   (case (if allowed_domains v \<noteq> None
                                          then validate_domain_allowlist v h else Inr ()) of
                                      Inl e \<Rightarrow> Inl e
                                    | Inr u \<Rightarrow>
                                        if is_ip_address h then validate_ip_address h
                                        else validate_hostname_resolution getaddrinfo h)))))))"

text \<open>\<^verbatim>\<open>validate_url_safe\<close>\<close>

definition validate_url_safe ::
  "(string \<Rightarrow> exn + string list) \<Rightarrow> string \<Rightarrow> string list option \<Rightarrow> int \<Rightarrow> exn + bool" where
  "validate_url_safe getaddrinfo url domains timeout =
     (case validate_url getaddrinfo (new_URLValidator domains timeout) url of
        Inl (SSRFError e) \<Rightarrow> Inr False
      | Inl e \<Rightarrow> Inl e
      | Inr u \<Rightarrow> Inr True)"

section \<open>The daemon and its environment\<close>

text \<open>
  \<^verbatim>\<open>src/scripts/whisper_daemon.py\<close>. What the daemon reads from outside is a record of
  oracles, one for each call that leaves the program: the clock, the model loader, the
  resolver, the temporary directory and the random token, file creation, the download,
  the write of the downloaded bytes, the engine's \<^verbatim>\<open>transcribe\<close>, \<^verbatim>\<open>os.unlink\<close>, and
  the interpreter's \<^verbatim>\<open>str()\<close> of a float or container and its traceback text. An
  oracle that may raise gives the exception (\<open>Some\<close>, or \<open>Inl\<close>). The engine's
  result has the shape of the engine's contract: a text, a language that may be absent,
  and segments that may be absent, each with an end time and a word list that may be
  absent (the keys the daemon reads with a default).
\<close>

record segment =
  seg_start :: real
  seg_end :: "real option"
  seg_text :: string
  seg_words :: "pyval list option"

record engine_result =
  res_text :: string
  res_language :: "string option"
  res_segments :: "segment list option"

record env =
  env_now :: real
  env_cuda :: bool
  env_load_model :: "exn option"
  env_getaddrinfo :: "string \<Rightarrow> exn + string list"
  env_tempdir :: string
  env_tempdir_writable :: bool
  env_token_hex :: string
  env_os_open :: "string option"
  env_urlopen :: "string \<Rightarrow> exn + string"
  env_write :: "exn option"
  env_transcribe :: "string \<Rightarrow> pyval \<Rightarrow> pyval \<Rightarrow> exn + engine_result"
  env_unlink :: "exn option"
  env_str :: "pyval \<Rightarrow> string"
  env_format_exc :: "exn \<Rightarrow> string"

text \<open>
  What the daemon does to the outside is a record of effects: the files that exist, the
  temporary files it created (in order), the URLs it fetched (in order), and the calls of
  its loggers (in order, whatever level the loggers are set to print).
\<close>

datatype log_level = DEBUG | INFO | ERROR

record world =
  files :: "string set"
  created :: "string list"
  fetched :: "string list"
  logged :: "(log_level \<times> string) list"

definition log_msg :: "log_level \<Rightarrow> string \<Rightarrow> world \<Rightarrow> world" where
  "log_msg lvl msg w = w\<lparr>logged := logged w @ [(lvl, msg)]\<rparr>"

record daemon =
  idle_timeout :: int
  model_name :: string
  model :: "string option"
  device :: string
  last_activity :: real
  running :: bool
  shutdown_event :: bool
  validator :: url_validator

definition get_optimal_device :: "env \<Rightarrow> string" where
  "get_optimal_device e = (if env_cuda e then ''cuda'' else ''cpu'')"

text \<open>\<^verbatim>\<open>_load_model\<close>: loads only when no model is held; a failure is logged and raised again.\<close>

definition load_model :: "env \<Rightarrow> daemon \<Rightarrow> world \<Rightarrow> (exn + daemon) \<times> world" where
  "load_model e d w =
     (if model d = None then
        (case env_load_model e of
           Some x \<Rightarrow>
             (Inl x, log_msg ERROR (''Failed to load model '' @ model_name d @ '': '' @ str_exn x) w)
         | None \<Rightarrow> (Inr (d\<lparr>model := Some (model_name d)\<rparr>), w))
      else (Inr d, w))"

text \<open>
  \<^verbatim>\<open>_unload_model\<close>: the model is dropped; emptying the CUDA cache touches nothing of
  this state.
\<close>

definition unload_model :: "daemon \<Rightarrow> daemon" where
  "unload_model d = (if model d \<noteq> None then d\<lparr>model := None\<rparr> else d)"

text \<open>\<^verbatim>\<open>_shutdown\<close>\<close>

definition shutdown :: "daemon \<Rightarrow> daemon" where
  "shutdown d = (unload_model (d\<lparr>running := False\<rparr>))\<lparr>shutdown_event := True\<rparr>"

text \<open>
  \<^verbatim>\<open>__init__\<close>: the state is set up, the validator is built with a timeout of 30, and
  the model is loaded; a failed load fails the construction.
\<close>

definition new_WhisperDaemon ::
  "env \<Rightarrow> int \<Rightarrow> string \<Rightarrow> string list option \<Rightarrow> world \<Rightarrow> (exn + daemon) \<times> world" where
  "new_WhisperDaemon e timeout name domains w =
     load_model e
       \<lparr>idle_timeout = timeout, model_name = name, model = None, device = get_optimal_device e,
        last_activity = env_now e, running = True, shutdown_event = False,
        validator = new_URLValidator domains 30\<rparr> w"

text \<open>
  \<^verbatim>\<open>_idle_checker\<close>. \<open>idle_check\<close> is one pass of the loop body after the sleep, at
  clock reading \<open>now\<close>; \<open>idle_checker\<close> runs the loop over the clock readings of its
  successive wake-ups, for as long as \<open>running\<close> holds.
\<close>

definition idle_check :: "real \<Rightarrow> daemon \<Rightarrow> daemon" where
  "idle_check now d = (if now - last_activity d > real_of_int (idle_timeout d) then shutdown d else d)"

fun idle_checker :: "real list \<Rightarrow> daemon \<Rightarrow> daemon" where
  "idle_checker [] d = d"
| "idle_checker (now # later) d =
     (if running d then
        (if now - last_activity d > real_of_int (idle_timeout d) then shutdown d
         else idle_checker later d)
      else d)"

text \<open>\<^verbatim>\<open>os.path.join(dir, name)\<close> for a relative \<open>name\<close>, and \<^verbatim>\<open>os.path.basename\<close>.\<close>

definition path_join :: "string \<Rightarrow> string \<Rightarrow> string" where
  "path_join dir name =
     (if dir = [] \<or> last dir = CHR ''/'' then dir @ name else dir @ ''/'' @ name)"

definition basename :: "string \<Rightarrow> string" where
  "basename p = after_last CHR ''/'' p"

definition temp_path_of :: "env \<Rightarrow> string" where
  "temp_path_of e = path_join (env_tempdir e) (''whisper_'' @ env_token_hex e @ ''.wav'')"

text \<open>
  \<^verbatim>\<open>_create_secure_temp_file\<close>: \<^verbatim>\<open>os.open\<close> with \<^verbatim>\<open>O_CREAT | O_EXCL\<close> fails when the
  path exists; any \<open>OSError\<close> is logged and raised again.
\<close>

definition create_secure_temp_file :: "env \<Rightarrow> world \<Rightarrow> (exn + string) \<times> world" where
  "create_secure_temp_file e w =
     (if \<not> env_tempdir_writable e
      then (Inl (OSError (''Temp directory not writable: '' @ env_tempdir e)), w)
      else
        (let temp_path = temp_path_of e;
             failure = (case env_os_open e of
                          Some msg \<Rightarrow> Some msg
                        | None \<Rightarrow>
                            if temp_path \<in> files w
                            then Some (''[Errno 17] File exists: '' @ quoted temp_path)
                            else None)
         in case failure of
              Some msg \<Rightarrow>
                (Inl (OSError msg), log_msg ERROR (''Failed to create secure temp file: '' @ msg) w)
            | None \<Rightarrow>
                (Inr temp_path,
                 log_msg DEBUG (''Created secure temp file: '' @ basename temp_path)
                   (w\<lparr>files := insert temp_path (files w), created := created w @ [temp_path]\<rparr>))))"

text \<open>
  The body of the inner \<open>try\<close> of \<^verbatim>\<open>transcribe_audio\<close>: the download into the
  temporary file, then the engine.
\<close>

definition download_and_transcribe ::
  "env \<Rightarrow> daemon \<Rightarrow> world \<Rightarrow> string \<Rightarrow> string \<Rightarrow> pyval \<Rightarrow> pyval \<Rightarrow> (exn + engine_result) \<times> world" where
  "download_and_transcribe e d w audio_url temp_path language word_timestamps =
     (let w1 = w\<lparr>fetched := fetched w @ [audio_url]\<rparr> in
      case env_urlopen e audio_url of
        Inl x \<Rightarrow> (Inl x, w1)
      | Inr body \<Rightarrow>
          (let w2 = w1\<lparr>files := insert temp_path (files w1)\<rparr> in
           case env_write e of
             Some x \<Rightarrow> (Inl x, w2)
           | None \<Rightarrow>
               (let w3 = log_msg INFO
                           (''Processing audio file: '' @ audio_url @ '' -> '' @ basename temp_path) w2
                in case model d of
                     None \<Rightarrow>
                       (Inl (AttributeError (quoted ''NoneType'' @ '' object has no attribute '' @ quoted ''transcribe'')), w3)
                   | Some m \<Rightarrow>
                       (env_transcribe e temp_path
                          (if language = PStr ''auto'' then PNone else language) word_timestamps,
                        w3))))"

text \<open>The \<open>finally\<close> block: the cleanup, whose own failure is logged and goes no further.\<close>

definition cleanup :: "env \<Rightarrow> world \<Rightarrow> string \<Rightarrow> world" where
  "cleanup e w temp_path =
     (if temp_path \<in> files w then
        (case env_unlink e of
           Some x \<Rightarrow>
             log_msg ERROR
               (''SECURITY: Failed to cleanup temp file '' @ temp_path @ '': '' @ str_exn x) w
         | None \<Rightarrow>
             log_msg DEBUG (''Cleaned up temp file: '' @ basename temp_path)
               (w\<lparr>files := files w - {temp_path}\<rparr>))
      else w)"

text \<open>The response of a successful transcription, shaped from the engine's result.\<close>

definition segment_val :: "segment \<Rightarrow> pyval" where
  "segment_val s =
     PDict ([(''start'', PFloat (seg_start s))]
            @ (case seg_end s of None \<Rightarrow> [] | Some t \<Rightarrow> [(''end'', PFloat t)])
            @ [(''text'', PStr (seg_text s))]
            @ (case seg_words s of None \<Rightarrow> [] | Some ws \<Rightarrow> [(''words'', PList ws)]))"

definition result_segments :: "engine_result \<Rightarrow> segment list" where
  "result_segments r = (case res_segments r of None \<Rightarrow> [] | Some ss \<Rightarrow> ss)"

definition transcribe_response :: "engine_result \<Rightarrow> dict" where
  "transcribe_response r =
     [(''success'', PBool True),
      (''text'', PStr (py_strip (res_text r))),
      (''language'', PStr (case res_language r of None \<Rightarrow> ''unknown'' | Some l \<Rightarrow> l)),
      (''duration'',
         PFloat (sum_list (map (\<lambda>s. case seg_end s of None \<Rightarrow> 0 | Some t \<Rightarrow> t) (result_segments r)))),
      (''segments'', PList (map segment_val (result_segments r))),
      (''word_timestamps'',
         PList (concat (map (\<lambda>s. case seg_words s of None \<Rightarrow> [] | Some ws \<Rightarrow> ws)
                          (result_segments r))))]"

text \<open>
  \<open>str(v)\<close> of a request value, and \<^verbatim>\<open>validate_url\<close> on a request value: the method
  calls \<^verbatim>\<open>url.strip()\<close>, which only a string has.
\<close>

fun py_str :: "env \<Rightarrow> pyval \<Rightarrow> string" where
  "py_str e PNone = ''None''"
| "py_str e (PBool b) = (if b then ''True'' else ''False'')"
| "py_str e (PInt i) = str_int i"
| "py_str e (PStr s) = s"
| "py_str e v = env_str e v"

fun type_name :: "pyval \<Rightarrow> string" where
  "type_name PNone = ''NoneType''"
| "type_name (PBool b) = ''bool''"
| "type_name (PInt i) = ''int''"
| "type_name (PFloat r) = ''float''"
| "type_name (PStr s) = ''str''"
| "type_name (PList l) = ''list''"
| "type_name (PDict d) = ''dict''"

definition validate_url_value :: "env \<Rightarrow> url_validator \<Rightarrow> pyval \<Rightarrow> exn + unit" where
  "validate_url_value e v url =
     (case url of
        PStr s \<Rightarrow> validate_url (env_getaddrinfo e) v s
      | _ \<Rightarrow> Inl (AttributeError (quoted (type_name url) @ '' object has no attribute '' @ quoted ''strip'')))"

text \<open>
  \<^verbatim>\<open>transcribe_audio\<close>. \<open>transcribe_steps\<close> is the body of the outer \<open>try\<close> after the
  first statement, with the exception that leaves it as \<open>Inl\<close>; \<open>transcribe_audio\<close>
  sets the activity stamp, runs the body and turns an exception into a failure response.
  Building the TLS context changes nothing of this state and has no step of its own.
\<close>

definition transcribe_steps :: "env \<Rightarrow> daemon \<Rightarrow> world \<Rightarrow> dict \<Rightarrow> (exn + dict) \<times> daemon \<times> world" where
  "transcribe_steps e d w request =
     (case load_model e d w of
        (Inl x, w1) \<Rightarrow> (Inl x, d, w1)
      | (Inr d1, w1) \<Rightarrow>
          (let audio_url = dict_get_default request ''url'' PNone;
               language = dict_get_default request ''language'' (PStr ''auto'');
               word_timestamps = dict_get_default request ''word_timestamps'' (PBool True)
           in
             if \<not> truthy audio_url then (Inl (ValueError ''Missing 'url' parameter''), d1, w1)
             else
               (case validate_url_value e (validator d1) audio_url of
                  Inl (SSRFError s) \<Rightarrow>
                    (Inl (ValueError (''URL validation failed: '' @ ssrf_str s)), d1,
                     log_msg ERROR
                       (''SECURITY: SSRF attempt blocked for URL: '' @ py_str e audio_url @ '' - '' @ ssrf_str s)
                       w1)
                | Inl x \<Rightarrow> (Inl x, d1, w1)
                | Inr u \<Rightarrow>
                    (let w2 = log_msg INFO (''URL validation passed for: '' @ py_str e audio_url) w1 in
                     case create_secure_temp_file e w2 of
                       (Inl x, w3) \<Rightarrow> (Inl x, d1, w3)
                     | (Inr temp_path, w3) \<Rightarrow>
                         (case download_and_transcribe e d1 w3 (py_str e audio_url) temp_path
                                 language word_timestamps of
                            (r, w4) \<Rightarrow>
                              (let w5 = cleanup e w4 temp_path in
                               case r of
                                 Inl x \<Rightarrow> (Inl x, d1, w5)
                               | Inr result \<Rightarrow> (Inr (transcribe_response result), d1, w5)))))))"

definition transcribe_audio :: "env \<Rightarrow> daemon \<Rightarrow> world \<Rightarrow> dict \<Rightarrow> dict \<times> daemon \<times> world" where
  "transcribe_audio e d w request =
     (case transcribe_steps e (d\<lparr>last_activity := env_now e\<rparr>) w request of
        (Inr response, d1, w1) \<Rightarrow> (response, d1, w1)
      | (Inl x, d1, w1) \<Rightarrow>
          ([(''success'', PBool False),
            (''error'', PStr (str_exn x)),
            (''traceback'', PStr (env_format_exc e x))],
           d1, log_msg ERROR (''Transcription failed: '' @ str_exn x) w1))"

text \<open>
  \<^verbatim>\<open>handle_request\<close>. \<open>dispatch\<close> is the \<open>if\<close>/\<open>elif\<close> chain inside the \<open>try\<close>;
  \<open>handle_request\<close> adds the request id to its response, or builds the response of the
  \<open>except\<close> handler from the exception that left it.
\<close>

definition dispatch :: "env \<Rightarrow> daemon \<Rightarrow> world \<Rightarrow> dict \<Rightarrow> (exn + dict) \<times> daemon \<times> world" where
  "dispatch e d w request =
     (let action = dict_get_default request ''action'' PNone in
      if action = PStr ''transcribe'' then
        (case transcribe_audio e d w request of (response, d1, w1) \<Rightarrow> (Inr response, d1, w1))
      else if action = PStr ''ping'' then
        (Inr [(''success'', PBool True), (''message'', PStr ''pong'')], d, w)
      else if action = PStr ''status'' then
        (Inr [(''success'', PBool True),
              (''model'', PStr (model_name d)),
              (''device'', PStr (device d)),
              (''model_loaded'', PBool (model d \<noteq> None)),
              (''last_activity'', PFloat (last_activity d)),
              (''idle_timeout'', PInt (idle_timeout d))], d, w)
      else if action = PStr ''shutdown'' then
        (Inr [(''success'', PBool True), (''message'', PStr ''shutting down'')], shutdown d, w)
      else
        (Inr [(''success'', PBool False), (''error'', PStr (''Unknown action: '' @ py_str e action))],
         d, w))"

definition handle_request :: "env \<Rightarrow> daemon \<Rightarrow> world \<Rightarrow> dict \<Rightarrow> dict \<times> daemon \<times> world" where
  "handle_request e d w request =
     (let request_id = dict_get_default request ''id'' (PStr ''unknown'') in
      case dispatch e d w request of
        (Inr response, d1, w1) \<Rightarrow> (dict_set ''id'' request_id response, d1, w1)
      | (Inl x, d1, w1) \<Rightarrow>
          ([(''id'', request_id),
            (''success'', PBool False),
            (''error'', PStr (str_exn x)),
            (''traceback'', PStr (env_format_exc e x))],
           d1, log_msg ERROR (''Request handling failed: '' @ str_exn x) w1))"

section \<open>Example inputs\<close>

text \<open>
  A resolver that answers every name with a public address, a download and an engine
  that succeed and ones that fail, an environment built from them, a daemon with its
  model loaded and an idle timeout of 300 seconds, an empty world, and four requests.
\<close>

definition example_getaddrinfo :: "string \<Rightarrow> exn + string list" where
  "example_getaddrinfo h = Inr [''8.8.8.8'']"

definition example_urlopen :: "string \<Rightarrow> exn + string" where
  "example_urlopen u = Inr ''RIFF''"

definition failing_urlopen :: "string \<Rightarrow> exn + string" where
  "failing_urlopen u = Inl (OtherError ''<urlopen error timed out>'')"

definition example_engine :: "string \<Rightarrow> pyval \<Rightarrow> pyval \<Rightarrow> exn + engine_result" where
  "example_engine p l t =
     Inr \<lparr>res_text = '' hello '', res_language = Some ''en'',
          res_segments = Some [\<lparr>seg_start = 0, seg_end = Some 2, seg_text = ''hello'', seg_words = None\<rparr>]\<rparr>"

definition failing_engine :: "string \<Rightarrow> pyval \<Rightarrow> pyval \<Rightarrow> exn + engine_result" where
  "failing_engine p l t = Inl (OtherError ''Failed to load audio'')"

definition example_str :: "pyval \<Rightarrow> string" where
  "example_str v = ''<object>''"

definition example_format_exc :: "exn \<Rightarrow> string" where
  "example_format_exc x = ''Traceback (most recent call last): '' @ str_exn x"

definition example_env :: env where
  "example_env =
     \<lparr>env_now = 1000, env_cuda = False, env_load_model = None,
      env_getaddrinfo = example_getaddrinfo, env_tempdir = ''/tmp'',
      env_tempdir_writable = True, env_token_hex = ''00112233445566778899aabbccddeeff'',
      env_os_open = None, env_urlopen = example_urlopen, env_write = None,
      env_transcribe = example_engine, env_unlink = None, env_str = example_str,
      env_format_exc = example_format_exc\<rparr>"

definition download_failure_env :: env where
  "download_failure_env = example_env\<lparr>env_urlopen := failing_urlopen\<rparr>"

definition engine_failure_env :: env where
  "engine_failure_env = example_env\<lparr>env_transcribe := failing_engine\<rparr>"

definition cleanup_failure_env :: env where
  "cleanup_failure_env = example_env\<lparr>env_unlink := Some (OSError ''[Errno 13] Permission denied'')\<rparr>"

definition example_daemon :: daemon where
  "example_daemon =
     \<lparr>idle_timeout = 300, model_name = ''base'', model = Some ''base'', device = ''cpu'',
      last_activity = 0, running = True, shutdown_event = False,
      validator = new_URLValidator None 30\<rparr>"

definition example_world :: world where
  "example_world = \<lparr>files = {}, created = [], fetched = [], logged = []\<rparr>"

definition private_request :: dict where
  "private_request =
     [(''id'', PStr ''req-1''), (''action'', PStr ''transcribe''), (''url'', PStr ''http://10.0.0.1/audio.wav'')]"

definition public_request :: dict where
  "public_request =
     [(''id'', PStr ''req-2''), (''action'', PStr ''transcribe''), (''url'', PStr ''http://8.8.8.8/audio.wav'')]"

definition ping_request :: dict where
  "ping_request = [(''id'', PStr ''req-3''), (''action'', PStr ''ping'')]"

definition anonymous_request :: dict where
  "anonymous_request = [(''action'', PStr ''status'')]"

section \<open>Evaluation of concrete inputs\<close>

text \<open>
  The rule sets with which the simplifier runs the definitions on concrete strings,
  addresses and requests, and the values of the inputs used below.
\<close>

lemma replicate_numeral: "replicate (numeral k) x = x # replicate (pred_numeral k) x"
  by (simp add: numeral_eq_Suc)

lemmas str_eval =
  code_of_def is_space_def is_digit_def is_alpha_def is_hex_digit_def lower_char_def
  py_lower_def py_strip_def py_endswith_def before_first_def after_first_def after_last_def
  dec_value_def hex_digit_value_def hex_value_def str_int_def digit_char_def quoted_def Let_def
  str_nat.simps hex_str.simps

lemmas ip_parse_eval =
  parse_octet_def all_some_def ipv4_from_string_def new_IPv4Address_def parse_hextet_def
  hextets_value_def ipv6_from_string_def new_IPv6Address_def ip_address_def replicate_numeral

lemmas ip_class_eval =
  ipv4_def in_network_def hextets_value_def ipv4_private_networks_def
  ipv4_private_networks_exceptions_def ipv6_private_networks_def
  ipv6_private_networks_exceptions_def ipv4_is_private_def str_ipv4_def

lemmas url_eval =
  scheme_char_def check_bracketed_host_def check_bracketed_netloc_def urlparse_def
  hostinfo_def hostname_def port_def

lemmas validator_eval =
  ALLOWED_SCHEMES_def DANGEROUS_PORTS_def SAFE_PORTS_def new_URLValidator_def
  validate_scheme_def validate_port_def validate_domain_allowlist_def is_ip_address_def
  validate_hostname_resolution_def validate_url_def

lemmas example_eval =
  example_getaddrinfo_def example_urlopen_def failing_urlopen_def example_engine_def
  failing_engine_def example_str_def example_format_exc_def example_env_def
  example_daemon_def example_world_def private_request_def public_request_def
  ping_request_def anonymous_request_def

lemmas daemon_eval =
  dict_get_def dict_get_default_def log_msg_def load_model_def unload_model_def shutdown_def
  path_join_def basename_def temp_path_of_def create_secure_temp_file_def
  download_and_transcribe_def cleanup_def segment_val_def result_segments_def
  transcribe_response_def validate_url_value_def transcribe_steps_def transcribe_audio_def
  dispatch_def handle_request_def

lemma ip_private_10: "ip_address ''10.0.0.1'' = Inr (IPv4Address 167772161)"
  by (simp add: str_eval ip_parse_eval)

lemma ip_public_8: "ip_address ''8.8.8.8'' = Inr (IPv4Address 134744072)"
  by (simp add: str_eval ip_parse_eval)

lemma ip_loopback: "ip_address ''127.0.0.1'' = Inr (IPv4Address 2130706433)"
  by (simp add: str_eval ip_parse_eval)

lemma ip_mapped_loopback: "ip_address ''::ffff:127.0.0.1'' = Inr (IPv6Address 281472812449793 None)"
  by (simp add: str_eval ip_parse_eval)

lemma validate_ip_private_10:
  "validate_ip_address ''10.0.0.1'' = Inl (SSRFError (Private (IPv4Address 167772161)))"
  by (subst validate_ip_address.simps) (simp add: ip_private_10 ip_class_eval)

lemma validate_ip_public_8: "validate_ip_address ''8.8.8.8'' = Inr ()"
  by (subst validate_ip_address.simps) (simp add: ip_public_8 ip_class_eval str_eval)

lemma validate_ip_loopback:
  "validate_ip_address ''127.0.0.1'' = Inl (SSRFError (Loopback (IPv4Address 2130706433)))"
  by (subst validate_ip_address.simps) (simp add: ip_loopback ip_class_eval)

lemma validate_ip_mapped_loopback:
  "validate_ip_address ''::ffff:127.0.0.1'' =
     Inl (SSRFError (Private (IPv6Address 281472812449793 None)))"
  by (subst validate_ip_address.simps) (simp add: ip_mapped_loopback ip_class_eval)

text \<open>
  A mapped address whose IPv6 object passes the five tests reaches the recursive call:
  \<open>::ffff:224.0.0.1\<close> is rejected as the multicast address \<open>224.0.0.1\<close>.
\<close>

lemma ip_mapped_multicast: "ip_address ''::ffff:224.0.0.1'' = Inr (IPv6Address 281474439839745 None)"
  by (simp add: str_eval ip_parse_eval)

lemma ip_multicast: "ip_address ''224.0.0.1'' = Inr (IPv4Address 3758096385)"
  by (simp add: str_eval ip_parse_eval)

lemma validate_ip_mapped_multicast:
  "validate_ip_address ''::ffff:224.0.0.1'' = Inl (SSRFError (Multicast (IPv4Address 3758096385)))"
proof -
  have inner: "validate_ip_address ''224.0.0.1'' = Inl (SSRFError (Multicast (IPv4Address 3758096385)))"
    by (subst validate_ip_address.simps) (simp add: ip_multicast ip_class_eval)
  have rendered: "str_ipv4 3758096385 = ''224.0.0.1''"
    by (simp add: str_ipv4_def str_eval)
  show ?thesis
    by (subst validate_ip_address.simps)
       (simp add: ip_mapped_multicast ipv4_def in_network_def hextets_value_def
          ipv4_private_networks_def ipv4_private_networks_exceptions_def ipv4_is_private_def
          rendered inner)
qed

lemma parse_private_url:
  "urlparse ''http://10.0.0.1/audio.wav'' = Inr \<lparr>scheme = ''http'', netloc = ''10.0.0.1''\<rparr>"
  by (simp add: url_eval str_eval)

lemma parse_public_url:
  "urlparse ''http://8.8.8.8/audio.wav'' = Inr \<lparr>scheme = ''http'', netloc = ''8.8.8.8''\<rparr>"
  by (simp add: url_eval str_eval)

lemma parse_loopback_url:
  "urlparse ''http://127.0.0.1/x'' = Inr \<lparr>scheme = ''http'', netloc = ''127.0.0.1''\<rparr>"
  by (simp add: url_eval str_eval)

lemma parse_mapped_url:
  "urlparse ''http://[::ffff:127.0.0.1]/x'' = Inr \<lparr>scheme = ''http'', netloc = ''[::ffff:127.0.0.1]''\<rparr>"
  by (simp add: url_eval str_eval ip_mapped_loopback)

lemma parse_file_url: "urlparse ''file:///etc/passwd'' = Inr \<lparr>scheme = ''file'', netloc = []\<rparr>"
  by (simp add: url_eval str_eval)

lemma parse_ftp_url:
  "urlparse ''ftp://internal.server/file.wav'' = Inr \<lparr>scheme = ''ftp'', netloc = ''internal.server''\<rparr>"
  by (simp add: url_eval str_eval)

lemma parse_no_host_url: "urlparse ''http:///missing-host'' = Inr \<lparr>scheme = ''http'', netloc = []\<rparr>"
  by (simp add: url_eval str_eval)

lemma parse_no_hostname_url: "urlparse ''http://:80/x'' = Inr \<lparr>scheme = ''http'', netloc = '':80''\<rparr>"
  by (simp add: url_eval str_eval)

lemma parse_ssh_port_url:
  "urlparse ''http://example.com:22/audio.wav'' = Inr \<lparr>scheme = ''http'', netloc = ''example.com:22''\<rparr>"
  by (simp add: url_eval str_eval)

lemma private_url_rejected:
  "validate_url g (new_URLValidator None 30) ''http://10.0.0.1/audio.wav'' =
     Inl (SSRFError (Private (IPv4Address 167772161)))"
  by (simp add: validator_eval parse_private_url url_eval str_eval ip_private_10 validate_ip_private_10)

lemma public_url_accepted:
  "validate_url g (new_URLValidator None 30) ''http://8.8.8.8/audio.wav'' = Inr ()"
  by (simp add: validator_eval parse_public_url url_eval str_eval ip_public_8 validate_ip_public_8)

lemma example_temp_path:
  "temp_path_of example_env = ''/tmp/whisper_00112233445566778899aabbccddeeff.wav''"
  "temp_path_of download_failure_env = ''/tmp/whisper_00112233445566778899aabbccddeeff.wav''"
  "temp_path_of engine_failure_env = ''/tmp/whisper_00112233445566778899aabbccddeeff.wav''"
  "temp_path_of cleanup_failure_env = ''/tmp/whisper_00112233445566778899aabbccddeeff.wav''"
  by (simp_all add: temp_path_of_def path_join_def example_env_def download_failure_env_def
      engine_failure_env_def cleanup_failure_env_def)

lemma example_success:
  "dict_get (fst (transcribe_audio example_env example_daemon example_world public_request)) ''success'' =
     Some (PBool True) \<and>
   created (snd (snd (transcribe_audio example_env example_daemon example_world public_request))) =
     [''/tmp/whisper_00112233445566778899aabbccddeeff.wav''] \<and>
   fetched (snd (snd (transcribe_audio example_env example_daemon example_world public_request))) =
     [''http://8.8.8.8/audio.wav'']"
  by (simp add: daemon_eval example_eval public_url_accepted str_eval)

lemma example_download_failure:
  "dict_get (fst (transcribe_audio download_failure_env example_daemon example_world public_request))
     ''success'' = Some (PBool False) \<and>
   created (snd (snd (transcribe_audio download_failure_env example_daemon example_world public_request))) =
     [''/tmp/whisper_00112233445566778899aabbccddeeff.wav'']"
  by (simp add: download_failure_env_def daemon_eval example_eval public_url_accepted str_eval)

lemma example_engine_failure:
  "dict_get (fst (transcribe_audio engine_failure_env example_daemon example_world public_request))
     ''success'' = Some (PBool False) \<and>
   created (snd (snd (transcribe_audio engine_failure_env example_daemon example_world public_request))) =
     [''/tmp/whisper_00112233445566778899aabbccddeeff.wav'']"
  by (simp add: engine_failure_env_def daemon_eval example_eval public_url_accepted str_eval)

lemma example_cleanup_failure:
  "dict_get (fst (transcribe_audio cleanup_failure_env example_daemon example_world public_request))
     ''success'' = Some (PBool True) \<and>
   created (snd (snd (transcribe_audio cleanup_failure_env example_daemon example_world public_request))) =
     [''/tmp/whisper_00112233445566778899aabbccddeeff.wav'']"
  by (simp add: cleanup_failure_env_def daemon_eval example_eval public_url_accepted str_eval)

section \<open>Properties of the validator\<close>

text \<open>
  A blank URL has no network location, and a URL without network location has no host
  name: a URL with a host name passed the first check of \<open>validate_url\<close>.
\<close>

lemma blank_url_all_space:
  assumes "url = [] \<or> py_strip url = []"
  shows "\<forall>c\<in>set url. is_space c"
proof (cases "dropWhile is_space url = []")
  case True
  then show ?thesis by simp
next
  case False
  then have "\<not> is_space (hd (dropWhile is_space url))" by (rule hd_dropWhile)
  moreover from False have "hd (dropWhile is_space url) \<in> set (dropWhile is_space url)" by simp
  moreover from assms False have "\<forall>c\<in>set (dropWhile is_space url). is_space c"
    by (auto simp: py_strip_def)
  ultimately show ?thesis by blast
qed

lemma blank_url_parse:
  assumes "url = [] \<or> py_strip url = []"
  shows "urlparse url = Inr \<lparr>scheme = [], netloc = []\<rparr>"
proof -
  from assms have "\<forall>c\<in>set url. is_space c" by (rule blank_url_all_space)
  then have "\<forall>c\<in>set url. code_of c \<le> 32" by (auto simp: is_space_def Let_def)
  then have stripped: "dropWhile (\<lambda>c. code_of c \<le> 32) url = []"
    by simp
  show ?thesis unfolding urlparse_def Let_def stripped by (simp add: before_first_def)
qed

lemma no_netloc_no_hostname: "netloc p = [] \<Longrightarrow> hostname p = None"
  by (simp add: hostname_def hostinfo_def after_last_def before_first_def)

lemma hostname_not_blank:
  assumes "urlparse url = Inr parsed" and "hostname parsed = Some h"
  shows "\<not> (url = [] \<or> py_strip url = [])" and "netloc parsed \<noteq> []"
proof -
  show "netloc parsed \<noteq> []" using assms(2) no_netloc_no_hostname by fastforce
  show "\<not> (url = [] \<or> py_strip url = [])"
  proof
    assume "url = [] \<or> py_strip url = []"
    then have "urlparse url = Inr \<lparr>scheme = [], netloc = []\<rparr>" by (rule blank_url_parse)
    with assms(1) have "netloc parsed = []" by auto
    with assms(2) show False by (simp add: no_netloc_no_hostname)
  qed
qed

text \<open>
  The unwrapping cannot make an address pass: an IPv4-mapped address is accepted only
  if its embedded IPv4 address is.
\<close>

lemma mapped_accepted_only_if_embedded_accepted:
  assumes "ip_address s = Inr (IPv6Address n scope_id)"
      and "ipv4_mapped (IPv6Address n scope_id) = Some m"
      and "validate_ip_address s = Inr ()"
  shows "validate_ip_address (str_ipv4 m) = Inr ()"
  using assms(3)
  by (subst (asm) validate_ip_address.simps)
     (simp add: assms(1) assms(2) del: ipv4_mapped.simps is_private.simps split: if_splits)

section \<open>Properties of the daemon\<close>

lemma dict_get_set: "dict_get (dict_set k v d) k = Some v"
  by (induction d) (auto simp: dict_get_def)

lemma dict_set_other: "k' \<noteq> k \<Longrightarrow> dict_get (dict_set k v d) k' = dict_get d k'"
  by (induction d) (auto simp: dict_get_def)

lemma log_msg_simps [simp]:
  "files (log_msg l m w) = files w" "created (log_msg l m w) = created w"
  "fetched (log_msg l m w) = fetched w" "logged (log_msg l m w) = logged w @ [(l, m)]"
  by (simp_all add: log_msg_def)

text \<open>What each step of \<open>transcribe_audio\<close> does to the daemon and to the world.\<close>

lemma load_model_effects:
  assumes "load_model e d w = (r, w1)"
  shows "files w1 = files w \<and> created w1 = created w \<and> fetched w1 = fetched w"
    and "r = Inr d1 \<Longrightarrow>
           last_activity d1 = last_activity d \<and> validator d1 = validator d \<and> model d1 \<noteq> None \<and> w1 = w"
    and "r = Inl x \<Longrightarrow> model d = None \<and> env_load_model e = Some x"
  using assms by (auto simp: load_model_def split: if_splits option.splits)

lemma create_temp_effects:
  assumes "create_secure_temp_file e w = (r, w3)"
  shows "fetched w3 = fetched w"
    and "r = Inl x \<Longrightarrow> created w3 = created w \<and> files w3 = files w"
    and "r = Inr p \<Longrightarrow> p = temp_path_of e \<and> p \<in> files w3 \<and> created w3 = created w @ [p]"
  using assms
  by (auto simp: create_secure_temp_file_def Let_def split: if_splits option.splits)

lemma download_effects:
  assumes "download_and_transcribe e d w3 u p l t = (r, w4)"
  shows "created w4 = created w3" and "p \<in> files w3 \<Longrightarrow> p \<in> files w4"
  using assms
  by (auto simp: download_and_transcribe_def Let_def split: sum.splits option.splits)

lemma cleanup_effects:
  assumes "p \<in> files w4"
  shows "created (cleanup e w4 p) = created w4"
    and "env_unlink e = None \<Longrightarrow> p \<notin> files (cleanup e w4 p)"
    and "env_unlink e = Some x \<Longrightarrow>
           p \<in> files (cleanup e w4 p) \<and>
           (ERROR, ''SECURITY: Failed to cleanup temp file '' @ p @ '': '' @ str_exn x)
             \<in> set (logged (cleanup e w4 p))"
  using assms by (auto simp: cleanup_def split: option.splits)

lemma transcribe_steps_last_activity:
  "last_activity (fst (snd (transcribe_steps e d w request))) = last_activity d"
proof (cases "load_model e d w")
  case (Pair r w1)
  show ?thesis
  proof (cases r)
    case (Inl x)
    with Pair show ?thesis by (simp add: transcribe_steps_def)
  next
    case (Inr d1)
    with Pair have "last_activity d1 = last_activity d" by (simp add: load_model_effects(2))
    with Pair Inr show ?thesis
      by (auto simp: transcribe_steps_def Let_def split: sum.splits exn.splits prod.splits)
  qed
qed

lemma transcribe_audio_last_activity:
  "last_activity (fst (snd (transcribe_audio e d w request))) = env_now e"
proof -
  have "last_activity (fst (snd (transcribe_steps e (d\<lparr>last_activity := env_now e\<rparr>) w request))) = env_now e"
    by (simp add: transcribe_steps_last_activity)
  then show ?thesis
    by (auto simp: transcribe_audio_def split: prod.splits sum.splits)
qed

text \<open>
  A run of the steps that creates a temporary file creates the one file
  \<open>temp_path_of e\<close>, and passes through the cleanup with that file in place.
\<close>

lemma transcribe_steps_temp_file:
  assumes "transcribe_steps e d w request = (r, d1, w1)" and "created w1 \<noteq> created w"
  shows "created w1 = created w @ [temp_path_of e] \<and>
         (env_unlink e = None \<longrightarrow> temp_path_of e \<notin> files w1) \<and>
         (\<forall>x. env_unlink e = Some x \<longrightarrow>
            temp_path_of e \<in> files w1 \<and>
            (ERROR, ''SECURITY: Failed to cleanup temp file '' @ temp_path_of e @ '': '' @ str_exn x)
              \<in> set (logged w1))"
proof (cases "load_model e d w")
  case load: (Pair lr w0)
  note eff = load_model_effects [OF load]
  show ?thesis
  proof (cases lr)
    case (Inl x)
    with load assms eff(1) show ?thesis by (auto simp: transcribe_steps_def)
  next
    case (Inr d0)
    with eff(2) have w0: "w0 = w" by simp
    let ?url = "dict_get_default request ''url'' PNone"
    let ?w2 = "log_msg INFO (''URL validation passed for: '' @ py_str e ?url) w"
    show ?thesis
    proof (cases "truthy ?url \<and> validate_url_value e (validator d0) ?url = Inr ()")
      case False
      with load Inr w0 assms show ?thesis
        by (auto simp: transcribe_steps_def Let_def split: if_splits sum.splits exn.splits)
    next
      case True
      show ?thesis
      proof (cases "create_secure_temp_file e ?w2")
        case create: (Pair cr w3)
        note ceff = create_temp_effects [OF create]
        show ?thesis
        proof (cases cr)
          case (Inl x)
          with load Inr w0 True create assms ceff(2) show ?thesis
            by (auto simp: transcribe_steps_def Let_def)
        next
          case (Inr p)
          from ceff(3) [OF Inr]
          have p: "p = temp_path_of e" "p \<in> files w3" "created w3 = created w @ [p]"
            by auto
          obtain dr w4 where dl: "download_and_transcribe e d0 w3 (py_str e ?url) p
              (dict_get_default request ''language'' (PStr ''auto''))
              (dict_get_default request ''word_timestamps'' (PBool True)) = (dr, w4)"
            by (cases "download_and_transcribe e d0 w3 (py_str e ?url) p
              (dict_get_default request ''language'' (PStr ''auto''))
              (dict_get_default request ''word_timestamps'' (PBool True))") auto
          from download_effects [OF dl] p have w4: "created w4 = created w @ [p]" "p \<in> files w4"
            by simp_all
          from load \<open>lr = Inr d0\<close> w0 True create Inr dl assms(1)
          have w1: "w1 = cleanup e w4 p"
            by (auto simp: transcribe_steps_def Let_def split: sum.splits)
          from cleanup_effects [OF w4(2)] w4(1) w1 p(1) show ?thesis by auto
        qed
      qed
    qed
  qed
qed

text \<open>Only the cleanup reads the oracle of \<^verbatim>\<open>os.unlink\<close>, and the response does not depend on it.\<close>

lemma py_str_unlink [simp]: "py_str (e\<lparr>env_unlink := u\<rparr>) v = py_str e v"
  by (cases v) simp_all

lemma temp_path_unlink [simp]: "temp_path_of (e\<lparr>env_unlink := u\<rparr>) = temp_path_of e"
  by (simp add: temp_path_of_def)

lemma oracles_unlink [simp]:
  "load_model (e\<lparr>env_unlink := u\<rparr>) d w = load_model e d w"
  "validate_url_value (e\<lparr>env_unlink := u\<rparr>) v x = validate_url_value e v x"
  "create_secure_temp_file (e\<lparr>env_unlink := u\<rparr>) w = create_secure_temp_file e w"
  "download_and_transcribe (e\<lparr>env_unlink := u\<rparr>) d w a p l t = download_and_transcribe e d w a p l t"
  by (simp_all add: load_model_def validate_url_value_def create_secure_temp_file_def
      download_and_transcribe_def
      cong: option.case_cong sum.case_cong pyval.case_cong if_cong)

lemma transcribe_steps_unlink:
  "fst (transcribe_steps (e\<lparr>env_unlink := u\<rparr>) d w request) = fst (transcribe_steps e d w request)"
  by (auto simp: transcribe_steps_def Let_def split: prod.splits sum.splits exn.splits)

lemma transcribe_audio_unlink:
  "fst (transcribe_audio (e\<lparr>env_unlink := u\<rparr>) d w request) = fst (transcribe_audio e d w request)"
proof -
  let ?d = "d\<lparr>last_activity := env_now e\<rparr>"
  have "fst (transcribe_steps (e\<lparr>env_unlink := u\<rparr>) ?d w request) = fst (transcribe_steps e ?d w request)"
    by (rule transcribe_steps_unlink)
  then show ?thesis
    by (auto simp: transcribe_audio_def split: prod.splits sum.splits)
qed

section \<open>The claims\<close>

subsection \<open>C1: a URL that fails validation is never fetched\<close>

text \<open>
  Claim C1. For every transcribe request whose URL fails SSRF validation,
  \<open>handle_request\<close> returns a failure response whose error text names the violated
  rule, and for that request neither the temporary file is created nor any network fetch
  is performed.

  For every request with action \<open>transcribe\<close> whose \<open>url\<close> is a string that
  \<open>validate_url\<close> rejects with an \<open>SSRFError\<close>: the response has \<open>success\<close> false,
  and the files, the temporary files created and the URLs fetched are what they were
  before the call. When the validator is reached (the model is loaded or loads, and the
  URL is not the empty string, which the daemon reports as a missing parameter before
  it validates), the error text is \<open>URL validation failed:\<close> followed by the message
  of the \<open>SSRFError\<close>, and the rejection is logged as a security error.
\<close>

theorem ssrf_rejection_response:
  assumes act: "dict_get request ''action'' = Some (PStr ''transcribe'')"
      and url: "dict_get request ''url'' = Some (PStr url)"
      and rej: "validate_url (env_getaddrinfo e) (validator d) url = Inl (SSRFError s)"
  shows "(case handle_request e d w request of
            (response, d', w') \<Rightarrow>
              dict_get response ''success'' = Some (PBool False) \<and>
              files w' = files w \<and> created w' = created w \<and> fetched w' = fetched w \<and>
              ((model d \<noteq> None \<or> env_load_model e = None) \<and> url \<noteq> [] \<longrightarrow>
                 dict_get response ''error'' = Some (PStr (''URL validation failed: '' @ ssrf_str s)) \<and>
                 (ERROR, ''SECURITY: SSRF attempt blocked for URL: '' @ url @ '' - '' @ ssrf_str s)
                   \<in> set (logged w')))"
proof -
  let ?d = "d\<lparr>last_activity := env_now e\<rparr>"
  have hr: "handle_request e d w request =
      (case transcribe_audio e d w request of
         (response, d1, w1) \<Rightarrow>
           (dict_set ''id'' (dict_get_default request ''id'' (PStr ''unknown'')) response, d1, w1))"
    using act by (simp add: handle_request_def dispatch_def Let_def dict_get_default_def split: prod.splits)
  obtain lr w0 where load: "load_model e ?d w = (lr, w0)" by (cases "load_model e ?d w") auto
  note eff = load_model_effects [OF load]
  show ?thesis
  proof (cases lr)
    case (Inl x)
    with eff(3) have "model d = None" "env_load_model e = Some x" by simp_all
    with load Inl eff(1) show ?thesis
      by (simp add: hr transcribe_audio_def transcribe_steps_def dict_set_other) (simp add: dict_get_def)
  next
    case (Inr d0)
    with eff(2) have d0: "validator d0 = validator d" "w0 = w" by simp_all
    show ?thesis
    proof (cases "url = []")
      case True
      with load Inr d0 url show ?thesis
        by (simp add: hr transcribe_audio_def transcribe_steps_def dict_get_default_def dict_set_other)
           (simp add: dict_get_def)
    next
      case False
      with load Inr d0 url rej show ?thesis
        by (simp add: hr transcribe_audio_def transcribe_steps_def dict_get_default_def
              validate_url_value_def dict_set_other)
           (simp add: dict_get_def)
    qed
  qed
qed

text \<open>
  The request for \<^verbatim>\<open>http://10.0.0.1/audio.wav\<close>: the response names the private
  address, and nothing was created or fetched.
\<close>

theorem ssrf_rejection_response_witness:
  "dict_get (fst (handle_request example_env example_daemon example_world private_request)) ''success'' =
     Some (PBool False) \<and>
   dict_get (fst (handle_request example_env example_daemon example_world private_request)) ''error'' =
     Some (PStr ''URL validation failed: Private IP address not allowed: 10.0.0.1'') \<and>
   files (snd (snd (handle_request example_env example_daemon example_world private_request))) = {} \<and>
   created (snd (snd (handle_request example_env example_daemon example_world private_request))) = [] \<and>
   fetched (snd (snd (handle_request example_env example_daemon example_world private_request))) = []"
proof -
  have a: "dict_get private_request ''action'' = Some (PStr ''transcribe'')"
    and u: "dict_get private_request ''url'' = Some (PStr ''http://10.0.0.1/audio.wav'')"
    by (simp_all add: private_request_def dict_get_def)
  have r: "validate_url (env_getaddrinfo example_env) (validator example_daemon) ''http://10.0.0.1/audio.wav'' =
      Inl (SSRFError (Private (IPv4Address 167772161)))"
    by (simp add: example_daemon_def private_url_rejected)
  from ssrf_rejection_response [OF a u r, of example_world] show ?thesis
    by (simp add: case_prod_beta example_daemon_def example_world_def ip_class_eval str_eval)
qed

subsection \<open>C2: an IPv4-mapped loopback address is classified as private\<close>

text \<open>
  Claim C2. \<open>validate_url\<close> rejects a URL whose host is an IPv4-mapped IPv6 literal
  identically to the URL carrying the embedded IPv4 literal: the mapped address is
  unwrapped to its embedded IPv4 form and re-classified recursively, so
  \<^verbatim>\<open>http://[::ffff:127.0.0.1]/x\<close> is rejected with the same classification (Loopback)
  as \<^verbatim>\<open>http://127.0.0.1/x\<close>.

  The code does not do this. \<open>validate_ip_address\<close> unwraps a mapped address only
  after the IPv6 object itself has passed the five property tests, and for
  \<open>::ffff:127.0.0.1\<close> the test \<open>is_private\<close> of the IPv6 object holds (the embedded
  address is in \<open>127.0.0.0/8\<close>, a private network of the library) while \<open>is_loopback\<close>
  of an IPv6 object is \<open>::1\<close> alone. Both URLs are rejected, the mapped one as a
  private address and the plain one as a loopback address, with different messages.
  The repository's test \<^verbatim>\<open>test_localhost_blocked\<close> expects the word localhost or
  loopback in the message for the mapped URL. The unwrapping itself works where it is
  reached (\<open>validate_ip_mapped_multicast\<close>), and no mapped address passes whose
  embedded address is rejected (\<open>mapped_accepted_only_if_embedded_accepted\<close>).
\<close>

theorem mapped_loopback_classified_private:
  "validate_url g (new_URLValidator None 30) ''http://[::ffff:127.0.0.1]/x'' =
     Inl (SSRFError (Private (IPv6Address 281472812449793 None))) \<and>
   validate_url g (new_URLValidator None 30) ''http://127.0.0.1/x'' =
     Inl (SSRFError (Loopback (IPv4Address 2130706433))) \<and>
   ssrf_str (Private (IPv6Address 281472812449793 None)) =
     ''Private IP address not allowed: ::ffff:7f00:1'' \<and>
   ssrf_str (Loopback (IPv4Address 2130706433)) =
     ''Localhost/loopback address not allowed: 127.0.0.1''"
proof (intro conjI)
  show "validate_url g (new_URLValidator None 30) ''http://[::ffff:127.0.0.1]/x'' =
     Inl (SSRFError (Private (IPv6Address 281472812449793 None)))"
    by (simp add: validator_eval parse_mapped_url url_eval str_eval ip_mapped_loopback
          validate_ip_mapped_loopback)
  show "validate_url g (new_URLValidator None 30) ''http://127.0.0.1/x'' =
     Inl (SSRFError (Loopback (IPv4Address 2130706433)))"
    by (simp add: validator_eval parse_loopback_url url_eval str_eval ip_loopback validate_ip_loopback)
  show "ssrf_str (Private (IPv6Address 281472812449793 None)) =
     ''Private IP address not allowed: ::ffff:7f00:1''"
    by (simp add: hextets_of_def compress_hextets_def str_eval)
  show "ssrf_str (Loopback (IPv4Address 2130706433)) =
     ''Localhost/loopback address not allowed: 127.0.0.1''"
    by (simp add: ip_class_eval str_eval)
qed

subsection \<open>C3: the port policy\<close>

text \<open>
  Claim C3. Port validation obeys exactly this policy for every URL with an explicit
  port: a port in the dangerous set is rejected with PortNotAllowed regardless of an
  otherwise-valid host; a port below 1024 that is not in \<open>{80, 443, 8080, 8443}\<close> is
  rejected; every port from 1024 on outside the dangerous set is permitted; a URL with
  no explicit port passes the port check.

  For \<open>validate_port\<close>: a dangerous port is rejected as \<open>DangerousPort\<close>; a port below
  1024 that is neither dangerous nor safe is rejected as \<open>SystemPort\<close>; a port from 1024
  on that is not dangerous passes; no port passes; and a port passes exactly when it is
  not dangerous and is at least 1024 or safe. For \<open>validate_url\<close>: a URL that parses
  with an allowed scheme, some host name and a dangerous port is rejected as
  \<open>DangerousPort\<close>, whatever the host, the allowlist and the resolver are.
\<close>

theorem port_policy:
  "(n \<in> set DANGEROUS_PORTS \<longrightarrow> validate_port (Some n) s = Inl (SSRFError (DangerousPort n))) \<and>
   (n \<notin> set DANGEROUS_PORTS \<and> n < 1024 \<and> n \<notin> set SAFE_PORTS \<longrightarrow>
      validate_port (Some n) s = Inl (SSRFError (SystemPort n))) \<and>
   (n \<notin> set DANGEROUS_PORTS \<and> 1024 \<le> n \<longrightarrow> validate_port (Some n) s = Inr ()) \<and>
   validate_port None s = Inr () \<and>
   ((validate_port (Some n) s = Inr ()) = (n \<notin> set DANGEROUS_PORTS \<and> (1024 \<le> n \<or> n \<in> set SAFE_PORTS))) \<and>
   (urlparse url = Inr parsed \<and> validate_scheme (scheme parsed) = Inr () \<and>
    hostname parsed = Some h \<and> port parsed = Inr (Some n) \<and> n \<in> set DANGEROUS_PORTS \<longrightarrow>
      validate_url g v url = Inl (SSRFError (DangerousPort n)))"
proof (intro conjI impI)
  show "n \<in> set DANGEROUS_PORTS \<Longrightarrow> validate_port (Some n) s = Inl (SSRFError (DangerousPort n))"
    by (simp add: validate_port_def)
  show "n \<notin> set DANGEROUS_PORTS \<and> n < 1024 \<and> n \<notin> set SAFE_PORTS \<Longrightarrow>
      validate_port (Some n) s = Inl (SSRFError (SystemPort n))"
    by (auto simp: validate_port_def SAFE_PORTS_def)
  show "n \<notin> set DANGEROUS_PORTS \<and> 1024 \<le> n \<Longrightarrow> validate_port (Some n) s = Inr ()"
    by (auto simp: validate_port_def)
  show "validate_port None s = Inr ()"
    by (simp add: validate_port_def)
  show "(validate_port (Some n) s = Inr ()) = (n \<notin> set DANGEROUS_PORTS \<and> (1024 \<le> n \<or> n \<in> set SAFE_PORTS))"
    by (auto simp: validate_port_def SAFE_PORTS_def)
next
  assume a: "urlparse url = Inr parsed \<and> validate_scheme (scheme parsed) = Inr () \<and>
    hostname parsed = Some h \<and> port parsed = Inr (Some n) \<and> n \<in> set DANGEROUS_PORTS"
  then have "\<not> (url = [] \<or> py_strip url = [])" and "netloc parsed \<noteq> []"
    using hostname_not_blank by blast+
  with a show "validate_url g v url = Inl (SSRFError (DangerousPort n))"
    by (simp add: validate_url_def validate_port_def)
qed

text \<open>Ports 22, 81 and 8000, and the URL \<^verbatim>\<open>http://example.com:22/audio.wav\<close>.\<close>

theorem port_policy_witness:
  "validate_port (Some 22) ''http'' = Inl (SSRFError (DangerousPort 22)) \<and>
   validate_port (Some 81) ''http'' = Inl (SSRFError (SystemPort 81)) \<and>
   validate_port (Some 8000) ''http'' = Inr () \<and>
   validate_url example_getaddrinfo (new_URLValidator None 30) ''http://example.com:22/audio.wav'' =
     Inl (SSRFError (DangerousPort 22))"
  using port_policy [of 22 "''http''" "''http://example.com:22/audio.wav''"
          "\<lparr>scheme = ''http'', netloc = ''example.com:22''\<rparr>" "''example.com''" example_getaddrinfo
          "new_URLValidator None 30"]
        port_policy [of 81 "''http''"] port_policy [of 8000 "''http''"] parse_ssh_port_url
  by (simp add: ALLOWED_SCHEMES_def DANGEROUS_PORTS_def SAFE_PORTS_def validate_scheme_def url_eval str_eval)

subsection \<open>C4: the scheme is checked before the structure\<close>

text \<open>
  Claim C4. \<open>validate_url\<close> performs its checks in the specified order: for every URL
  whose parsed structure is missing a hostname or network authority, validation fails
  with the Malformed error, since the structure check precedes the scheme check,
  whatever the URL's scheme is.

  The code checks the scheme first. As amended: for every URL that is not blank and
  parses, a scheme outside http and https (compared in lower case) is rejected as
  \<open>SchemeNotAllowed\<close>, whether or not the URL has a network authority; with an allowed
  scheme, a URL without network authority is rejected as \<open>MissingHost\<close>, and one with
  an authority, no host name and a port that is absent or a number up to 65535 is
  rejected as \<open>MissingHostname\<close> (both of the kind Malformed).
\<close>

theorem scheme_checked_before_structure:
  assumes "\<not> (url = [] \<or> py_strip url = [])" and "urlparse url = Inr parsed"
  shows "(py_lower (scheme parsed) \<notin> set ALLOWED_SCHEMES \<longrightarrow>
            validate_url g v url = Inl (SSRFError (SchemeNotAllowed (scheme parsed)))) \<and>
         (py_lower (scheme parsed) \<in> set ALLOWED_SCHEMES \<and> netloc parsed = [] \<longrightarrow>
            validate_url g v url = Inl (SSRFError MissingHost)) \<and>
         (py_lower (scheme parsed) \<in> set ALLOWED_SCHEMES \<and> netloc parsed \<noteq> [] \<and>
          hostname parsed = None \<and> port parsed = Inr p \<longrightarrow>
            validate_url g v url = Inl (SSRFError MissingHostname))"
  using assms by (simp add: validate_url_def validate_scheme_def)

text \<open>
  \<^verbatim>\<open>file:///etc/passwd\<close> has neither network authority nor host name, and is rejected
  for its scheme, not as malformed.
\<close>

theorem scheme_check_counterexample:
  "urlparse ''file:///etc/passwd'' = Inr \<lparr>scheme = ''file'', netloc = []\<rparr> \<and>
   hostname \<lparr>scheme = ''file'', netloc = []\<rparr> = None \<and>
   validate_url example_getaddrinfo (new_URLValidator None 30) ''file:///etc/passwd'' =
     Inl (SSRFError (SchemeNotAllowed ''file''))"
  by (simp add: parse_file_url validator_eval url_eval str_eval)

text \<open>
  \<^verbatim>\<open>ftp://internal.server/file.wav\<close>, \<^verbatim>\<open>http:///missing-host\<close> and \<^verbatim>\<open>http://:80/x\<close>.
\<close>

theorem scheme_checked_before_structure_witness:
  "validate_url example_getaddrinfo (new_URLValidator None 30) ''ftp://internal.server/file.wav'' =
     Inl (SSRFError (SchemeNotAllowed ''ftp'')) \<and>
   validate_url example_getaddrinfo (new_URLValidator None 30) ''http:///missing-host'' =
     Inl (SSRFError MissingHost) \<and>
   validate_url example_getaddrinfo (new_URLValidator None 30) ''http://:80/x'' =
     Inl (SSRFError MissingHostname)"
proof -
  have nb: "\<not> (''ftp://internal.server/file.wav'' = [] \<or> py_strip ''ftp://internal.server/file.wav'' = [])"
      "\<not> (''http:///missing-host'' = [] \<or> py_strip ''http:///missing-host'' = [])"
      "\<not> (''http://:80/x'' = [] \<or> py_strip ''http://:80/x'' = [])"
    by (simp_all add: str_eval)
  from scheme_checked_before_structure [OF nb(1) parse_ftp_url, of example_getaddrinfo "new_URLValidator None 30"]
       scheme_checked_before_structure [OF nb(2) parse_no_host_url, of example_getaddrinfo "new_URLValidator None 30"]
       scheme_checked_before_structure [OF nb(3) parse_no_hostname_url, where p = "Some 80"
          and g = example_getaddrinfo and v = "new_URLValidator None 30"]
  show ?thesis
    by (simp add: ALLOWED_SCHEMES_def url_eval str_eval)
qed

subsection \<open>C5: the temporary file is removed\<close>

text \<open>
  Claim C5. After any transcribe call that created a temporary file, whether
  transcription succeeds, the download fails, or the engine raises, the temporary file
  created for that call no longer exists when the call returns its response; a cleanup
  failure is logged but does not change the response outcome.

  For every call of \<open>transcribe_audio\<close>, whatever the request, the daemon and the
  environment: if the call created a temporary file, it created the one file
  \<open>temp_path_of e\<close>, and the \<open>finally\<close> block reached its cleanup with that file in
  place. When \<^verbatim>\<open>os.unlink\<close> does not fail, the file does not exist in the world the
  call returns. A cleanup failure is the one way the file can remain: when
  \<^verbatim>\<open>os.unlink\<close> fails with \<open>x\<close>, the file is still there and the failure is logged
  as a security error naming the path and \<open>x\<close>. The response is the same whatever
  \<^verbatim>\<open>os.unlink\<close> does.
\<close>

theorem temp_file_removed_after_transcribe:
  assumes "transcribe_audio e d w request = (response, d', w')" and "created w' \<noteq> created w"
  shows "created w' = created w @ [temp_path_of e] \<and>
         (env_unlink e = None \<longrightarrow> temp_path_of e \<notin> files w') \<and>
         (\<forall>x. env_unlink e = Some x \<longrightarrow>
            temp_path_of e \<in> files w' \<and>
            (ERROR, ''SECURITY: Failed to cleanup temp file '' @ temp_path_of e @ '': '' @ str_exn x)
              \<in> set (logged w')) \<and>
         (\<forall>u. fst (transcribe_audio (e\<lparr>env_unlink := u\<rparr>) d w request) = response)"
proof -
  obtain r d1 w1 where steps: "transcribe_steps e (d\<lparr>last_activity := env_now e\<rparr>) w request = (r, d1, w1)"
    by (cases "transcribe_steps e (d\<lparr>last_activity := env_now e\<rparr>) w request") auto
  with assms(1) have w': "created w' = created w1" "files w' = files w1" "set (logged w1) \<subseteq> set (logged w')"
    by (auto simp: transcribe_audio_def split: sum.splits)
  with assms(2) have "created w1 \<noteq> created w" by simp
  from transcribe_steps_temp_file [OF steps this] w'
  have "created w' = created w @ [temp_path_of e] \<and>
         (env_unlink e = None \<longrightarrow> temp_path_of e \<notin> files w') \<and>
         (\<forall>x. env_unlink e = Some x \<longrightarrow>
            temp_path_of e \<in> files w' \<and>
            (ERROR, ''SECURITY: Failed to cleanup temp file '' @ temp_path_of e @ '': '' @ str_exn x)
              \<in> set (logged w'))"
    by auto
  moreover from assms(1) have "\<forall>u. fst (transcribe_audio (e\<lparr>env_unlink := u\<rparr>) d w request) = response"
    by (simp add: transcribe_audio_unlink)
  ultimately show ?thesis by blast
qed

text \<open>
  The request for \<^verbatim>\<open>http://8.8.8.8/audio.wav\<close> in four environments. In three
  \<^verbatim>\<open>os.unlink\<close> works: the transcription succeeds, the download fails, the engine
  raises; in each the file was created and is gone. In the fourth \<^verbatim>\<open>os.unlink\<close>
  fails with \<^verbatim>\<open>[Errno 13] Permission denied\<close>: the file is still there, the
  failure is logged, and the response is the one of the successful transcription.
\<close>

theorem temp_file_removed_witness:
  "dict_get (fst (transcribe_audio example_env example_daemon example_world public_request)) ''success'' =
     Some (PBool True) \<and>
   created (snd (snd (transcribe_audio example_env example_daemon example_world public_request))) =
     [''/tmp/whisper_00112233445566778899aabbccddeeff.wav''] \<and>
   ''/tmp/whisper_00112233445566778899aabbccddeeff.wav''
     \<notin> files (snd (snd (transcribe_audio example_env example_daemon example_world public_request))) \<and>
   dict_get (fst (transcribe_audio download_failure_env example_daemon example_world public_request))
     ''success'' = Some (PBool False) \<and>
   ''/tmp/whisper_00112233445566778899aabbccddeeff.wav''
     \<notin> files (snd (snd (transcribe_audio download_failure_env example_daemon example_world public_request))) \<and>
   dict_get (fst (transcribe_audio engine_failure_env example_daemon example_world public_request))
     ''success'' = Some (PBool False) \<and>
   ''/tmp/whisper_00112233445566778899aabbccddeeff.wav''
     \<notin> files (snd (snd (transcribe_audio engine_failure_env example_daemon example_world public_request))) \<and>
   ''/tmp/whisper_00112233445566778899aabbccddeeff.wav''
     \<in> files (snd (snd (transcribe_audio cleanup_failure_env example_daemon example_world public_request))) \<and>
   (ERROR, ''SECURITY: Failed to cleanup temp file /tmp/whisper_00112233445566778899aabbccddeeff.wav: [Errno 13] Permission denied'')
     \<in> set (logged (snd (snd (transcribe_audio cleanup_failure_env example_daemon example_world public_request)))) \<and>
   fst (transcribe_audio cleanup_failure_env example_daemon example_world public_request) =
     fst (transcribe_audio example_env example_daemon example_world public_request)"
proof -
  let ?run = "\<lambda>e. transcribe_audio e example_daemon example_world public_request"
  have made: "created (snd (snd (?run example_env))) \<noteq> created example_world"
      "created (snd (snd (?run download_failure_env))) \<noteq> created example_world"
      "created (snd (snd (?run engine_failure_env))) \<noteq> created example_world"
      "created (snd (snd (?run cleanup_failure_env))) \<noteq> created example_world"
    using example_success example_download_failure example_engine_failure example_cleanup_failure
    by (simp_all add: example_world_def)
  have ok: "env_unlink example_env = None" "env_unlink download_failure_env = None"
      "env_unlink engine_failure_env = None"
      "env_unlink cleanup_failure_env = Some (OSError ''[Errno 13] Permission denied'')"
    by (simp_all add: example_env_def download_failure_env_def engine_failure_env_def
        cleanup_failure_env_def)
  have pair: "\<And>e. ?run e = (fst (?run e), fst (snd (?run e)), snd (snd (?run e)))" by simp
  from temp_file_removed_after_transcribe [OF pair made(1)]
       temp_file_removed_after_transcribe [OF pair made(2)]
       temp_file_removed_after_transcribe [OF pair made(3)]
       temp_file_removed_after_transcribe [OF pair made(4)]
       ok example_success example_download_failure example_engine_failure
  show ?thesis
    by (simp add: example_temp_path cleanup_failure_env_def)
qed

subsection \<open>C6: the idle timeout\<close>

text \<open>
  Claim C6. Whenever the idle checker observes \<open>now - last_activity \<ge> idle_timeout\<close>
  while the daemon is running, the daemon autonomously transitions to ShuttingDown:
  \<open>running\<close> becomes false, the engine handle is released, and the shutdown event is
  set, without any external request or signal.

  The code compares with \<open>>\<close>. As amended: whenever the idle checker of a running
  daemon observes \<open>now - last_activity > idle_timeout\<close>, \<open>running\<close> becomes false, the
  model is released and the shutdown event is set; an observation with
  \<open>now - last_activity \<le> idle_timeout\<close> changes nothing.
\<close>

theorem idle_timeout_strict:
  "(running d \<and> now - last_activity d > real_of_int (idle_timeout d) \<longrightarrow>
      \<not> running (idle_checker (now # later) d) \<and>
      model (idle_checker (now # later) d) = None \<and>
      shutdown_event (idle_checker (now # later) d) \<and>
      idle_check now d = idle_checker (now # later) d) \<and>
   (now - last_activity d \<le> real_of_int (idle_timeout d) \<longrightarrow>
      idle_check now d = d \<and> idle_checker [now] d = d)"
  by (simp add: shutdown_def unload_model_def idle_check_def)

text \<open>
  With the last activity at 0 and a timeout of 300, the observation at 300 leaves the
  daemon running, and the one at 301 shuts it down.
\<close>

theorem idle_timeout_counterexample:
  "running example_daemon \<and>
   300 - last_activity example_daemon \<ge> real_of_int (idle_timeout example_daemon) \<and>
   idle_check 300 example_daemon = example_daemon \<and>
   idle_checker [300] example_daemon = example_daemon"
  by (simp add: example_daemon_def idle_check_def)

theorem idle_timeout_strict_witness:
  "running example_daemon \<and>
   301 - last_activity example_daemon > real_of_int (idle_timeout example_daemon) \<and>
   \<not> running (idle_checker [301] example_daemon) \<and>
   model (idle_checker [301] example_daemon) = None \<and>
   shutdown_event (idle_checker [301] example_daemon)"
proof -
  have h: "running example_daemon"
      "301 - last_activity example_daemon > real_of_int (idle_timeout example_daemon)"
    by (simp_all add: example_daemon_def)
  from idle_timeout_strict [of example_daemon 301 "[]"] h show ?thesis by simp
qed

subsection \<open>C7: which actions stamp the activity\<close>

text \<open>
  Claim C7. Every successful \<open>handle_request\<close> call, for each of the actions
  transcribe, ping, status, and shutdown, sets \<open>last_activity\<close> to the current time.

  Only \<open>transcribe_audio\<close> writes \<open>last_activity\<close>. As amended: every
  \<open>handle_request\<close> call with the action transcribe sets \<open>last_activity\<close> to the
  current time; a call with the action ping, status or shutdown leaves
  \<open>last_activity\<close> as it was.
\<close>

theorem activity_only_by_transcribe:
  "(dict_get request ''action'' = Some (PStr ''transcribe'') \<longrightarrow>
      last_activity (fst (snd (handle_request e d w request))) = env_now e) \<and>
   (dict_get request ''action'' = Some (PStr ''ping'') \<or>
    dict_get request ''action'' = Some (PStr ''status'') \<or>
    dict_get request ''action'' = Some (PStr ''shutdown'') \<longrightarrow>
      last_activity (fst (snd (handle_request e d w request))) = last_activity d)"
proof (intro conjI impI)
  assume "dict_get request ''action'' = Some (PStr ''transcribe'')"
  then have "fst (snd (handle_request e d w request)) = fst (snd (transcribe_audio e d w request))"
    by (auto simp: handle_request_def dispatch_def Let_def dict_get_default_def split: prod.splits sum.splits)
  then show "last_activity (fst (snd (handle_request e d w request))) = env_now e"
    by (simp add: transcribe_audio_last_activity)
next
  assume "dict_get request ''action'' = Some (PStr ''ping'') \<or>
    dict_get request ''action'' = Some (PStr ''status'') \<or>
    dict_get request ''action'' = Some (PStr ''shutdown'')"
  then show "last_activity (fst (snd (handle_request e d w request))) = last_activity d"
    by (auto simp: handle_request_def dispatch_def Let_def dict_get_default_def shutdown_def unload_model_def)
qed

text \<open>
  A ping at time 1000 to a daemon whose last activity was at 0 succeeds and leaves the
  stamp at 0; a transcribe request moves it to 1000.
\<close>

theorem ping_leaves_activity_counterexample:
  "dict_get (fst (handle_request example_env example_daemon example_world ping_request)) ''success'' =
     Some (PBool True) \<and>
   last_activity (fst (snd (handle_request example_env example_daemon example_world ping_request))) = 0 \<and>
   env_now example_env = 1000"
  by (simp add: daemon_eval example_eval)

theorem activity_only_by_transcribe_witness:
  "last_activity (fst (snd (handle_request example_env example_daemon example_world private_request))) = 1000 \<and>
   last_activity (fst (snd (handle_request example_env example_daemon example_world ping_request))) = 0"
  using activity_only_by_transcribe [of private_request example_env example_daemon example_world]
        activity_only_by_transcribe [of ping_request example_env example_daemon example_world]
  by (simp add: private_request_def ping_request_def dict_get_def example_env_def example_daemon_def)

subsection \<open>C8: the response carries the request's id\<close>

text \<open>
  Claim C8. For every request that carries an id, the response produced by
  \<open>handle_request\<close> contains that id unchanged, including responses for unrecognized
  action tags and responses produced when handling raises an internal error.

  For every request with an \<open>id\<close>, every daemon, world and environment: the response
  of \<open>handle_request\<close> has that value under \<open>id\<close>. The statement covers every action
  tag, the failure responses of \<open>transcribe_audio\<close>, and the response of the
  \<open>except\<close> handler of \<open>handle_request\<close>.
\<close>

theorem response_carries_request_id:
  "dict_get request ''id'' = Some rid \<Longrightarrow>
   dict_get (fst (handle_request e d w request)) ''id'' = Some rid"
  by (auto simp: handle_request_def Let_def dict_get_default_def dict_get_set
        dict_get_def [of "(''id'', rid) # xs" for xs]
      split: prod.splits sum.splits)

theorem response_carries_request_id_witness:
  "dict_get private_request ''id'' = Some (PStr ''req-1'') \<and>
   dict_get (fst (handle_request example_env example_daemon example_world private_request)) ''id'' =
     Some (PStr ''req-1'')"
  using response_carries_request_id [of private_request "PStr ''req-1''" example_env example_daemon example_world]
  by (simp add: private_request_def dict_get_def)

subsection \<open>C9: a missing id becomes "unknown"\<close>

text \<open>
  Claim C9. If a request object has no \<open>id\<close> field at all, \<open>handle_request\<close> still
  returns a response containing an \<open>id\<close> field whose value is the literal string
  \<open>unknown\<close>: the id is defaulted, never omitted from the response.
\<close>

theorem missing_id_defaults_to_unknown:
  "dict_get request ''id'' = None \<Longrightarrow>
   dict_get (fst (handle_request e d w request)) ''id'' = Some (PStr ''unknown'')"
  by (auto simp: handle_request_def Let_def dict_get_default_def dict_get_set
        dict_get_def [of "(''id'', rid) # xs" for rid xs]
      split: prod.splits sum.splits)

theorem missing_id_defaults_to_unknown_witness:
  "dict_get anonymous_request ''id'' = None \<and>
   dict_get (fst (handle_request example_env example_daemon example_world anonymous_request)) ''id'' =
     Some (PStr ''unknown'')"
  using missing_id_defaults_to_unknown [of anonymous_request example_env example_daemon example_world]
  by (simp add: anonymous_request_def dict_get_def)

subsection \<open>C10: transcribe stamps the activity at entry\<close>

text \<open>
  Claim C10. Every transcribe dispatch updates \<open>last_activity\<close> to the current time at
  entry, before URL validation runs, so a transcribe request that is rejected for SSRF,
  or that fails for any other reason, still resets the idle clock exactly as a
  successful one does.

  For every request, daemon, world and environment: the daemon that \<open>transcribe_audio\<close>
  returns has \<open>last_activity\<close> equal to the clock, whatever the outcome; and the steps
  that run after the stamp is set (loading the model, validation, download, engine,
  cleanup) leave \<open>last_activity\<close> as they find it.
\<close>

theorem transcribe_stamps_activity_at_entry:
  "last_activity (fst (snd (transcribe_audio e d w request))) = env_now e \<and>
   last_activity (fst (snd (transcribe_steps e d w request))) = last_activity d"
  by (simp add: transcribe_audio_last_activity transcribe_steps_last_activity)

text \<open>The rejected request for \<^verbatim>\<open>http://10.0.0.1/audio.wav\<close> moves the stamp from 0 to 1000.\<close>

theorem transcribe_stamps_activity_witness:
  "last_activity example_daemon = 0 \<and>
   dict_get (fst (transcribe_audio example_env example_daemon example_world private_request)) ''success'' =
     Some (PBool False) \<and>
   last_activity (fst (snd (transcribe_audio example_env example_daemon example_world private_request))) = 1000"
proof -
  have "dict_get (fst (transcribe_audio example_env example_daemon example_world private_request)) ''success'' =
     Some (PBool False)"
    by (simp add: daemon_eval example_eval private_url_rejected)
  with transcribe_stamps_activity_at_entry [of example_env example_daemon example_world private_request]
  show ?thesis
    by (simp add: example_env_def example_daemon_def)
qed

end
